theory Spec2Isabelle
  imports Complex_Main "HOL-Library.Multiset"
begin

section \<open>Data model of the document API\<close>

text \<open>
  The document body is the JSON the remote API returns: every field is optional.
  An optional field is an \<open>option\<close>; a chain such as \<open>a?.b?.c\<close> that the code only
  ever reads as a whole is one optional field. Absolute offsets are integers.
\<close>

datatype error =
    UserError string    \<comment> \<open>\<open>throw new UserError(message)\<close>\<close>
  | RemoteError string  \<comment> \<open>a remote call rejected\<close>
  | TypeError string    \<comment> \<open>the runtime's error on reading a property of \<open>undefined\<close>\<close>
  | MarkdownConversionError string  \<comment> \<open>thrown by the markdown converter\<close>

record RgbColor =
  red :: "real option"
  green :: "real option"
  blue :: "real option"

text \<open>The text style of a run as the API returns it (\<open>textRun.textStyle\<close>).\<close>

record TextStyle =
  ts_bold :: "bool option"
  ts_italic :: "bool option"
  ts_underline :: "bool option"
  ts_strikethrough :: "bool option"
  ts_foregroundColor :: "RgbColor option"  \<comment> \<open>\<open>foregroundColor?.color?.rgbColor\<close>\<close>
  ts_backgroundColor :: "RgbColor option"  \<comment> \<open>\<open>backgroundColor?.color?.rgbColor\<close>\<close>
  ts_fontSize :: "real option"             \<comment> \<open>\<open>fontSize?.magnitude\<close>\<close>
  ts_fontFamily :: "string option"         \<comment> \<open>\<open>weightedFontFamily?.fontFamily\<close>\<close>
  ts_linkUrl :: "string option"            \<comment> \<open>\<open>link?.url\<close>\<close>

record TextRun =
  content :: "string option"
  textStyle :: "TextStyle option"

record ParagraphElement =
  textRun :: "TextRun option"
  inlineObjectId :: "string option"  \<comment> \<open>\<open>inlineObjectElement?.inlineObjectId\<close>\<close>
  inlineObjectElement :: bool        \<comment> \<open>whether \<open>inlineObjectElement\<close> is present\<close>

record Paragraph =
  elements :: "ParagraphElement list option"
  namedStyleType :: "string option"  \<comment> \<open>\<open>paragraphStyle?.namedStyleType\<close>\<close>

datatype StructuralElement =
  StructuralElement
    (el_startIndex: "int option")
    (el_endIndex: "int option")
    (el_paragraph: "Paragraph option")
    (el_table: "Table option")
    (el_sectionBreak: bool)
and Table =
  Table
    (columns: "int option")
    (tableRows: "TableRow list option")
and TableRow =
  TableRow (tableCells: "TableCell list option")
and TableCell =
  TableCell (cell_content: "StructuralElement list option")

record IndexRange =
  startIndex :: int
  endIndex :: int

text \<open>
  \<open>TextStyleArgs\<close> is declared in the module \<open>types\<close>: the style attributes of a run, each
  of them optional. Its fields here are those the extraction and the tools set.
\<close>

record TextStyleArgs =
  bold :: "bool option"
  italic :: "bool option"
  underline :: "bool option"
  strikethrough :: "bool option"
  foregroundColor :: "string option"
  backgroundColor :: "string option"
  fontSize :: "real option"
  fontFamily :: "string option"
  linkUrl :: "string option"

text \<open>The style record \<open>{}\<close>, with no attribute present.\<close>

definition emptyStyle :: TextStyleArgs where
  "emptyStyle =
     \<lparr>bold = None, italic = None, underline = None, strikethrough = None,
      foregroundColor = None, backgroundColor = None, fontSize = None, fontFamily = None,
      linkUrl = None\<rparr>"

text \<open>
  An \<open>updateTextStyle\<close> request: the range, the tab, and the style attributes it sets.
\<close>

record UpdateTextStyleRequest =
  uts_startIndex :: int
  uts_endIndex :: int
  uts_tabId :: "string option"
  uts_style :: TextStyleArgs

datatype Request =
    InsertText int "string option" string
      \<comment> \<open>\<open>location.index\<close>, \<open>location.tabId\<close>, \<open>text\<close>\<close>
  | DeleteContentRange int int "string option"
      \<comment> \<open>\<open>range.startIndex\<close>, \<open>range.endIndex\<close>, \<open>range.tabId\<close>\<close>
  | UpdateParagraphStyle int int string
      \<comment> \<open>\<open>range\<close>, \<open>paragraphStyle.namedStyleType\<close>; \<open>fields\<close> is always \<open>namedStyleType\<close>\<close>
  | UpdateTextStyle UpdateTextStyleRequest
  | InsertInlineImage int string "(real \<times> real) option"
      \<comment> \<open>\<open>location.index\<close>, \<open>uri\<close>, \<open>objectSize\<close> as (height, width) in PT\<close>
  | OtherRequest string
      \<comment> \<open>any other request kind of the remote API (tables, bullets), opaque here\<close>

section \<open>Rendering numbers in messages\<close>

text \<open>
  An integer in a template string, in decimal notation. The runtime prints a number of
  magnitude \<open>10\<^sup>2\<^sup>1\<close> or more with an exponent; the offsets and counts that the messages
  of this development carry are far below, and \<open>show_int\<close> stands for the rendering of
  those.
\<close>

definition digit_char :: "nat \<Rightarrow> char" where
  "digit_char d = ''0123456789'' ! d"

function show_nat :: "nat \<Rightarrow> string" where
  "show_nat n = (if n < 10 then [digit_char n] else show_nat (n div 10) @ [digit_char (n mod 10)])"
  by pat_completeness auto
termination
  by (relation "measure id") auto

declare show_nat.simps [simp del]

definition show_int :: "int \<Rightarrow> string" where
  "show_int i = (if i < 0 then CHR ''-'' # show_nat (nat (- i)) else show_nat (nat i))"

section \<open>Table helpers\<close>

definition extractTableElements :: "StructuralElement list \<Rightarrow> StructuralElement list" where
  "extractTableElements bodyContent = filter (\<lambda>el. el_table el \<noteq> None) bodyContent"

definition getTableElement :: "StructuralElement list \<Rightarrow> int \<Rightarrow> error + StructuralElement" where
  "getTableElement bodyContent tableIndex =
     (let tables = extractTableElements bodyContent in
      if tableIndex < 0 \<or> tableIndex \<ge> int (length tables) then
        Inl (UserError (''Table index '' @ show_int tableIndex @ '' out of range. Document has ''
              @ show_nat (length tables) @ '' table(s) (0-indexed).''))
      else Inr (tables ! nat tableIndex))"

text \<open>\<open>tableRows?.length ?? 0\<close> and \<open>tableCells?.length ?? 0\<close>.\<close>

definition opt_length :: "'a list option \<Rightarrow> nat" where
  "opt_length xs = (case xs of None \<Rightarrow> 0 | Some l \<Rightarrow> length l)"

definition getCellElement :: "Table \<Rightarrow> int \<Rightarrow> int \<Rightarrow> error + TableCell" where
  "getCellElement tbl row col =
     (case tableRows tbl of
        None \<Rightarrow>
          Inl (UserError (''Row '' @ show_int row @ '' out of range. Table has ''
                @ show_nat (opt_length (tableRows tbl)) @ '' rows (0-indexed).''))
      | Some rows \<Rightarrow>
          if row < 0 \<or> row \<ge> int (length rows) then
            Inl (UserError (''Row '' @ show_int row @ '' out of range. Table has ''
                  @ show_nat (opt_length (tableRows tbl)) @ '' rows (0-indexed).''))
          else
            (case tableCells (rows ! nat row) of
               None \<Rightarrow>
                 Inl (UserError (''Column '' @ show_int col @ '' out of range. Row '' @ show_int row
                       @ '' has '' @ show_nat (opt_length (tableCells (rows ! nat row)))
                       @ '' columns (0-indexed).''))
             | Some cells \<Rightarrow>
                 if col < 0 \<or> col \<ge> int (length cells) then
                   Inl (UserError (''Column '' @ show_int col @ '' out of range. Row '' @ show_int row
                         @ '' has '' @ show_nat (opt_length (tableCells (rows ! nat row)))
                         @ '' columns (0-indexed).''))
                 else Inr (cells ! nat col)))"

text \<open>
  \<open>pe.textRun?.content && pe.textRun.content !== '\n'\<close>: the element is a text run whose
  content is a non-empty string other than the structural newline.
\<close>

definition isTextRunElement :: "ParagraphElement \<Rightarrow> bool" where
  "isTextRunElement pe =
     (case textRun pe of
        None \<Rightarrow> False
      | Some tr \<Rightarrow> (case content tr of None \<Rightarrow> False | Some c \<Rightarrow> c \<noteq> [] \<and> c \<noteq> [CHR 0x0A]))"

text \<open>The body of the loop of \<open>getCellTextRanges\<close>: the ranges one content element adds.\<close>

definition paragraphTextRange :: "StructuralElement \<Rightarrow> IndexRange list" where
  "paragraphTextRange contentEl =
     (case el_paragraph contentEl of
        None \<Rightarrow> []
      | Some para \<Rightarrow>
          (case elements para of
             None \<Rightarrow> []
           | Some pes \<Rightarrow>
               if list_ex isTextRunElement pes then
                 (let pStart = (case el_startIndex contentEl of None \<Rightarrow> 0 | Some s \<Rightarrow> s);
                      pEnd = (case el_endIndex contentEl of None \<Rightarrow> pStart | Some e \<Rightarrow> e) - 1
                  in if pEnd > pStart then [\<lparr>startIndex = pStart, endIndex = pEnd\<rparr>] else [])
               else []))"

fun cellTextRangesLoop :: "StructuralElement list \<Rightarrow> IndexRange list \<Rightarrow> IndexRange list" where
  "cellTextRangesLoop [] textRanges = textRanges"
| "cellTextRangesLoop (contentEl # rest) textRanges =
     cellTextRangesLoop rest (textRanges @ paragraphTextRange contentEl)"

definition getCellTextRanges :: "TableCell \<Rightarrow> IndexRange list" where
  "getCellTextRanges cell =
     (case cell_content cell of None \<Rightarrow> [] | Some cs \<Rightarrow> cellTextRangesLoop cs [])"

definition getCellInsertionPoint :: "TableCell \<Rightarrow> error + int" where
  "getCellInsertionPoint cell =
     (case cell_content cell of
        None \<Rightarrow> Inl (UserError ''Cell has no content elements.'')
      | Some [] \<Rightarrow> Inl (UserError ''Cell has no content elements.'')
      | Some (c # _) \<Rightarrow> Inr (case el_startIndex c of None \<Rightarrow> 0 | Some s \<Rightarrow> s))"

text \<open>
  \<open>[...textRanges].sort((a, b) => b.startIndex - a.startIndex)\<close>: a stable sort by
  descending start offset.
\<close>

definition sortRangesDescending :: "IndexRange list \<Rightarrow> IndexRange list" where
  "sortRangesDescending textRanges = sort_key (\<lambda>r. - startIndex r) textRanges"

text \<open>
  \<open>textRanges.reduce((min, r) => Math.min(min, r.startIndex), Infinity)\<close> on a non-empty
  list: the first step replaces \<open>Infinity\<close> by the first start offset.
\<close>

definition lowestStartIndex :: "IndexRange \<Rightarrow> IndexRange list \<Rightarrow> int" where
  "lowestStartIndex r rs = fold (\<lambda>x m. min m (startIndex x)) rs (startIndex r)"

text \<open>\<open>...(tabId && { tabId })\<close>: the field is present only for a non-empty tab id.\<close>

definition tabIdField :: "string option \<Rightarrow> string option" where
  "tabIdField tabId = (case tabId of None \<Rightarrow> None | Some t \<Rightarrow> if t = [] then None else Some t)"

definition deleteRequests :: "string option \<Rightarrow> IndexRange list \<Rightarrow> Request list" where
  "deleteRequests tabId rs =
     map (\<lambda>r. DeleteContentRange (startIndex r) (endIndex r) (tabIdField tabId)) rs"

definition buildEditCellRequests ::
  "StructuralElement list \<Rightarrow> int \<Rightarrow> int \<Rightarrow> int \<Rightarrow> string \<Rightarrow> error + Request list" where
  "buildEditCellRequests bodyContent tableIndex row col newText =
     (case getTableElement bodyContent tableIndex of
        Inl e \<Rightarrow> Inl e
      | Inr tableEl \<Rightarrow>
          (case el_table tableEl of
             None \<Rightarrow> Inl (TypeError ''tableRows'')
           | Some tbl \<Rightarrow>
          (case getCellElement tbl row col of
             Inl e \<Rightarrow> Inl e
           | Inr cell \<Rightarrow>
               (case getCellTextRanges cell of
                  [] \<Rightarrow>
                    (case getCellInsertionPoint cell of
                       Inl e \<Rightarrow> Inl e
                     | Inr insertPoint \<Rightarrow> Inr [InsertText insertPoint None newText])
                | r # rs \<Rightarrow>
                    Inr (deleteRequests None (sortRangesDescending (r # rs))
                         @ (if newText \<noteq> [] then [InsertText (lowestStartIndex r rs) None newText]
                            else []))))))"

record CellEdit =
  edit_row :: int
  edit_col :: int
  edit_text :: string

record CellGroup =
  sortIndex :: int
  requests :: "Request list"

text \<open>The body of the loop of \<open>buildBatchEditCellRequests\<close>: the request group of one edit.\<close>

definition cellEditGroup :: "Table \<Rightarrow> string option \<Rightarrow> CellEdit \<Rightarrow> error + CellGroup" where
  "cellEditGroup tbl tabId edit =
     (case getCellElement tbl (edit_row edit) (edit_col edit) of
        Inl e \<Rightarrow> Inl e
      | Inr cell \<Rightarrow>
          (case getCellTextRanges cell of
             [] \<Rightarrow>
               (case getCellInsertionPoint cell of
                  Inl e \<Rightarrow> Inl e
                | Inr insertPoint \<Rightarrow>
                    Inr \<lparr>sortIndex = insertPoint,
                         requests =
                           (if edit_text edit \<noteq> []
                            then [InsertText insertPoint (tabIdField tabId) (edit_text edit)]
                            else [])\<rparr>)
           | r # rs \<Rightarrow>
               Inr \<lparr>sortIndex = lowestStartIndex r rs,
                    requests =
                      deleteRequests tabId (sortRangesDescending (r # rs))
                      @ (if edit_text edit \<noteq> []
                         then [InsertText (lowestStartIndex r rs) (tabIdField tabId) (edit_text edit)]
                         else [])\<rparr>))"

fun cellGroupsLoop ::
  "Table \<Rightarrow> string option \<Rightarrow> CellEdit list \<Rightarrow> CellGroup list \<Rightarrow> error + CellGroup list" where
  "cellGroupsLoop tbl tabId [] cellGroups = Inr cellGroups"
| "cellGroupsLoop tbl tabId (edit # edits) cellGroups =
     (case cellEditGroup tbl tabId edit of
        Inl e \<Rightarrow> Inl e
      | Inr g \<Rightarrow> cellGroupsLoop tbl tabId edits (cellGroups @ [g]))"

text \<open>\<open>cellGroups.sort((a, b) => b.sortIndex - a.sortIndex)\<close>, a stable sort.\<close>

definition sortGroupsDescending :: "CellGroup list \<Rightarrow> CellGroup list" where
  "sortGroupsDescending cellGroups = sort_key (\<lambda>g. - sortIndex g) cellGroups"

definition buildBatchEditCellRequests ::
  "StructuralElement list \<Rightarrow> int \<Rightarrow> CellEdit list \<Rightarrow> string option \<Rightarrow> error + Request list" where
  "buildBatchEditCellRequests bodyContent tableIndex edits tabId =
     (case getTableElement bodyContent tableIndex of
        Inl e \<Rightarrow> Inl e
      | Inr tableEl \<Rightarrow>
          (case el_table tableEl of
             None \<Rightarrow> Inl (TypeError ''tableRows'')
           | Some tbl \<Rightarrow>
               (case cellGroupsLoop tbl tabId edits [] of
                  Inl e \<Rightarrow> Inl e
                | Inr cellGroups \<Rightarrow>
                    Inr (concat (map requests (sortGroupsDescending cellGroups))))))"

subsection \<open>The cell replacement contract in the words of the specification\<close>

text \<open>
  The contents of the text runs of a content element, in order: what the paragraph holds
  as text. A paragraph of a cell is text-bearing when one of them is a non-empty text other
  than the structural newline; its range qualifies when, without the trailing newline, it
  is not empty. The qualifying ranges of a cell are those of its text-bearing paragraphs.
\<close>

definition runContents :: "StructuralElement \<Rightarrow> string list" where
  "runContents el =
     (case el_paragraph el of
        None \<Rightarrow> []
      | Some para \<Rightarrow>
          (case elements para of
             None \<Rightarrow> []
           | Some pes \<Rightarrow>
               concat (map (\<lambda>pe. case textRun pe of
                                   None \<Rightarrow> []
                                 | Some tr \<Rightarrow> (case content tr of None \<Rightarrow> [] | Some c \<Rightarrow> [c]))
                         pes)))"

definition textBearingParagraph :: "StructuralElement \<Rightarrow> bool" where
  "textBearingParagraph el = list_ex (\<lambda>c. c \<noteq> [] \<and> c \<noteq> [CHR 0x0A]) (runContents el)"

definition paragraphStart :: "StructuralElement \<Rightarrow> int" where
  "paragraphStart el = (case el_startIndex el of None \<Rightarrow> 0 | Some s \<Rightarrow> s)"

definition paragraphTextEnd :: "StructuralElement \<Rightarrow> int" where
  "paragraphTextEnd el = (case el_endIndex el of None \<Rightarrow> paragraphStart el | Some e \<Rightarrow> e) - 1"

definition cellContents :: "TableCell \<Rightarrow> StructuralElement list" where
  "cellContents cell = (case cell_content cell of None \<Rightarrow> [] | Some cs \<Rightarrow> cs)"

definition qualifyingRanges :: "TableCell \<Rightarrow> IndexRange list" where
  "qualifyingRanges cell =
     map (\<lambda>el. \<lparr>startIndex = paragraphStart el, endIndex = paragraphTextEnd el\<rparr>)
       (filter (\<lambda>el. textBearingParagraph el \<and> paragraphTextEnd el > paragraphStart el)
          (cellContents cell))"

subsection \<open>A sample document: one table whose cells hold text and an image\<close>

definition textElement :: "string \<Rightarrow> ParagraphElement" where
  "textElement s =
     \<lparr>textRun = Some \<lparr>content = Some s, textStyle = None\<rparr>,
      inlineObjectId = None, inlineObjectElement = False\<rparr>"

definition imageElement :: "string \<Rightarrow> ParagraphElement" where
  "imageElement objId = \<lparr>textRun = None, inlineObjectId = Some objId, inlineObjectElement = True\<rparr>"

definition paragraphAt :: "int \<Rightarrow> int \<Rightarrow> ParagraphElement list \<Rightarrow> StructuralElement" where
  "paragraphAt s e pes =
     StructuralElement (Some s) (Some e) (Some \<lparr>elements = Some pes, namedStyleType = None\<rparr>)
       None False"

text \<open>Cell (0,0): the paragraph \<open>Hi\<close> at 5..8, then an image-only paragraph at 8..10.\<close>

definition textImageCell :: TableCell where
  "textImageCell =
     TableCell (Some [paragraphAt 5 8 [textElement (''Hi'' @ [CHR 0x0A])],
                      paragraphAt 8 10 [imageElement ''img1'', textElement [CHR 0x0A] ] ])"

text \<open>Cell (0,1): one empty paragraph at 11..12.\<close>

definition blankCell :: TableCell where
  "blankCell = TableCell (Some [paragraphAt 11 12 [textElement [CHR 0x0A] ] ])"

definition sampleTable :: Table where
  "sampleTable = Table (Some 2) (Some [TableRow (Some [textImageCell, blankCell])])"

definition sampleTableElement :: StructuralElement where
  "sampleTableElement = StructuralElement (Some 2) (Some 13) None (Some sampleTable) False"

definition sampleBody :: "StructuralElement list" where
  "sampleBody =
     [paragraphAt 1 2 [textElement [CHR 0x0A] ], sampleTableElement,
      paragraphAt 13 14 [textElement [CHR 0x0A] ] ]"

definition threeRowTable :: Table where
  "threeRowTable =
     Table (Some 1)
       (Some [TableRow (Some [blankCell]), TableRow (Some [blankCell]), TableRow (Some [blankCell])])"

subsection \<open>A second sample table: cells without text, and cells with several runs\<close>

text \<open>
  Cell (0,0): an image-only paragraph at 20..22 followed by an empty paragraph at 22..23.
  Cell (0,1): a cell whose content list is empty. Cell (0,2): a cell with no content field.
  Cell (0,3): the paragraph \<open>a\<close> at 24..26, its letter and its newline in two runs.
  Cell (0,4): the paragraphs \<open>ab\<close> at 27..30 and \<open>cd\<close> at 30..33.
\<close>

definition imageOnlyCell :: TableCell where
  "imageOnlyCell =
     TableCell (Some [paragraphAt 20 22 [imageElement ''img2'', textElement [CHR 0x0A] ],
                      paragraphAt 22 23 [textElement [CHR 0x0A] ] ])"

definition emptyContentCell :: TableCell where
  "emptyContentCell = TableCell (Some [])"

definition noContentCell :: TableCell where
  "noContentCell = TableCell None"

definition oneLetterCell :: TableCell where
  "oneLetterCell = TableCell (Some [paragraphAt 24 26 [textElement ''a'', textElement [CHR 0x0A] ] ])"

definition twoParagraphCell :: TableCell where
  "twoParagraphCell =
     TableCell (Some [paragraphAt 27 30 [textElement (''ab'' @ [CHR 0x0A])],
                      paragraphAt 30 33 [textElement (''cd'' @ [CHR 0x0A])] ])"

definition variedTable :: Table where
  "variedTable =
     Table (Some 5)
       (Some [TableRow (Some [imageOnlyCell, emptyContentCell, noContentCell, oneLetterCell,
                              twoParagraphCell])])"

definition variedTableElement :: StructuralElement where
  "variedTableElement = StructuralElement (Some 18) (Some 34) None (Some variedTable) False"

definition variedBody :: "StructuralElement list" where
  "variedBody =
     [paragraphAt 1 18 [textElement (''sixteen letters.'' @ [CHR 0x0A])], variedTableElement,
      paragraphAt 34 35 [textElement [CHR 0x0A] ] ]"

section \<open>Snapshot manager\<close>

text \<open>
  An inline object of the document: \<open>inlineObjectProperties?.embeddedObject\<close> with its
  \<open>imageProperties?.contentUri\<close>, \<open>imageProperties?.sourceUri\<close>, \<open>size?.width?.magnitude\<close>
  and \<open>size?.height?.magnitude\<close>.
\<close>

record InlineObject =
  contentUri :: "string option"
  sourceUri :: "string option"
  sizeWidth :: "real option"
  sizeHeight :: "real option"

text \<open>What \<open>docs.documents.get\<close> returns: \<open>data.body?.content\<close> and \<open>data.inlineObjects\<close>.\<close>

record DocumentData =
  doc_bodyContent :: "StructuralElement list option"
  doc_inlineObjects :: "(string \<rightharpoonup> InlineObject) option"

record DocumentSnapshot =
  snap_id :: string
  snap_documentId :: string
  snap_timestamp :: int
  snap_label :: string
  snap_body :: "StructuralElement list"
  snap_inlineObjects :: "string \<rightharpoonup> InlineObject"

record SnapshotStack =
  undoStack :: "DocumentSnapshot list"
  redoStack :: "DocumentSnapshot list"

type_synonym SnapshotStacks = "string \<rightharpoonup> SnapshotStack"

definition MAX_SNAPSHOTS :: nat where
  "MAX_SNAPSHOTS = 10"

text \<open>
  \<open>getStack\<close> creates the entry of a document that has none; it returns the stack and the
  store. The stack object is shared with the store, so every later change of the stack is
  written back to the store by the caller.
\<close>

definition getStack :: "string \<Rightarrow> SnapshotStacks \<Rightarrow> SnapshotStack \<times> SnapshotStacks" where
  "getStack documentId snapshotStacks =
     (case snapshotStacks documentId of
        None \<Rightarrow> (\<lparr>undoStack = [], redoStack = []\<rparr>,
                 snapshotStacks(documentId \<mapsto> \<lparr>undoStack = [], redoStack = []\<rparr>))
      | Some stack \<Rightarrow> (stack, snapshotStacks))"

text \<open>\<open>while (stack.undoStack.length > MAX_SNAPSHOTS) stack.undoStack.shift()\<close>\<close>

function enforceMaxSnapshots :: "DocumentSnapshot list \<Rightarrow> DocumentSnapshot list" where
  "enforceMaxSnapshots undo =
     (if length undo > MAX_SNAPSHOTS then enforceMaxSnapshots (tl undo) else undo)"
  by pat_completeness auto
termination
  by (relation "measure length") auto

declare enforceMaxSnapshots.simps [simp del]

text \<open>
  The snapshot both \<open>createSnapshot\<close> and undo/redo build from a fetched document, a
  generated id and the current time: \<open>body\<close> is \<open>doc.data.body?.content || []\<close> and
  \<open>inlineObjects\<close> is \<open>doc.data.inlineObjects || {}\<close>, both deep-copied.
\<close>

definition captureSnapshot ::
  "DocumentData \<Rightarrow> string \<Rightarrow> int \<Rightarrow> string \<Rightarrow> string \<Rightarrow> DocumentSnapshot" where
  "captureSnapshot doc newId now documentId label =
     \<lparr>snap_id = newId, snap_documentId = documentId, snap_timestamp = now, snap_label = label,
      snap_body = (case doc_bodyContent doc of None \<Rightarrow> [] | Some b \<Rightarrow> b),
      snap_inlineObjects = (case doc_inlineObjects doc of None \<Rightarrow> Map.empty | Some m \<Rightarrow> m)\<rparr>"

text \<open>
  The remote read, \<open>generateId()\<close> and \<open>Date.now()\<close> are inputs of the model: \<open>fetched\<close> is
  the outcome of \<open>docs.documents.get\<close>, an error when the call rejects.
\<close>

definition createSnapshot ::
  "(error + DocumentData) \<Rightarrow> string \<Rightarrow> int \<Rightarrow> string \<Rightarrow> string \<Rightarrow> SnapshotStacks
     \<Rightarrow> (error + DocumentSnapshot) \<times> SnapshotStacks" where
  "createSnapshot fetched newId now documentId label snapshotStacks =
     (case fetched of
        Inl e \<Rightarrow> (Inl e, snapshotStacks)
      | Inr doc \<Rightarrow>
          (let snapshot = captureSnapshot doc newId now documentId label;
               (stack, stacks1) = getStack documentId snapshotStacks;
               pushed = undoStack stack @ [snapshot]
           in (Inr snapshot,
               stacks1(documentId \<mapsto>
                 \<lparr>undoStack = enforceMaxSnapshots pushed, redoStack = []\<rparr>))))"

text \<open>
  \<open>restoreDocumentContent\<close> acts on the remote document only and leaves the stacks alone;
  \<open>restore\<close> is its outcome for a snapshot, an error when a remote call rejects. The result
  carries the restored snapshot and the number of remaining entries, from which the
  message is rendered.
\<close>

definition undoLastChange ::
  "(error + DocumentData) \<Rightarrow> string \<Rightarrow> int \<Rightarrow> (DocumentSnapshot \<Rightarrow> error option) \<Rightarrow> string
     \<Rightarrow> SnapshotStacks \<Rightarrow> (error + DocumentSnapshot \<times> nat) \<times> SnapshotStacks" where
  "undoLastChange fetched newId now restore documentId snapshotStacks =
     (let (stack, stacks1) = getStack documentId snapshotStacks in
      if length (undoStack stack) = 0 then
        (Inl (UserError
           ''No snapshots available to undo. Create a snapshot before making changes.''),
         stacks1)
      else
        (case fetched of
           Inl e \<Rightarrow> (Inl e, stacks1)
         | Inr doc \<Rightarrow>
             (let currentSnapshot = captureSnapshot doc newId now documentId ''pre-undo state'';
                  redo1 = redoStack stack @ [currentSnapshot];
                  snapshot = last (undoStack stack);
                  undo1 = butlast (undoStack stack);
                  stacks2 = stacks1(documentId \<mapsto> \<lparr>undoStack = undo1, redoStack = redo1\<rparr>)
              in (case restore snapshot of
                    Some e \<Rightarrow> (Inl e, stacks2)
                  | None \<Rightarrow> (Inr (snapshot, length undo1), stacks2)))))"

definition redoLastChange ::
  "(error + DocumentData) \<Rightarrow> string \<Rightarrow> int \<Rightarrow> (DocumentSnapshot \<Rightarrow> error option) \<Rightarrow> string
     \<Rightarrow> SnapshotStacks \<Rightarrow> (error + DocumentSnapshot \<times> nat) \<times> SnapshotStacks" where
  "redoLastChange fetched newId now restore documentId snapshotStacks =
     (let (stack, stacks1) = getStack documentId snapshotStacks in
      if length (redoStack stack) = 0 then
        (Inl (UserError ''No redo states available.''), stacks1)
      else
        (case fetched of
           Inl e \<Rightarrow> (Inl e, stacks1)
         | Inr doc \<Rightarrow>
             (let currentSnapshot = captureSnapshot doc newId now documentId ''pre-redo state'';
                  undo1 = undoStack stack @ [currentSnapshot];
                  snapshot = last (redoStack stack);
                  redo1 = butlast (redoStack stack);
                  stacks2 = stacks1(documentId \<mapsto> \<lparr>undoStack = undo1, redoStack = redo1\<rparr>)
              in (case restore snapshot of
                    Some e \<Rightarrow> (Inl e, stacks2)
                  | None \<Rightarrow> (Inr (snapshot, length redo1), stacks2)))))"

datatype StackKind = Undo | Redo

record SnapshotEntry =
  entry_id :: string
  entry_label :: string
  entry_timestamp :: int
  entry_stack :: StackKind

definition snapshotEntry :: "StackKind \<Rightarrow> DocumentSnapshot \<Rightarrow> SnapshotEntry" where
  "snapshotEntry k s =
     \<lparr>entry_id = snap_id s, entry_label = snap_label s, entry_timestamp = snap_timestamp s,
      entry_stack = k\<rparr>"

definition listSnapshots :: "string \<Rightarrow> SnapshotStacks \<Rightarrow> SnapshotEntry list \<times> SnapshotStacks" where
  "listSnapshots documentId snapshotStacks =
     (let (stack, stacks1) = getStack documentId snapshotStacks in
      (map (snapshotEntry Undo) (undoStack stack) @ map (snapshotEntry Redo) (redoStack stack),
       stacks1))"

text \<open>
  A sequence of \<open>createSnapshot\<close> calls on one document, each with the outcome of its
  read, its generated id, its time and its label.
\<close>

record SnapshotCall =
  call_fetched :: "error + DocumentData"
  call_newId :: string
  call_now :: int
  call_label :: string

fun createSnapshots :: "SnapshotCall list \<Rightarrow> string \<Rightarrow> SnapshotStacks \<Rightarrow> SnapshotStacks" where
  "createSnapshots [] documentId snapshotStacks = snapshotStacks"
| "createSnapshots (c # cs) documentId snapshotStacks =
     createSnapshots cs documentId
       (snd (createSnapshot (call_fetched c) (call_newId c) (call_now c) documentId
               (call_label c) snapshotStacks))"

definition fetchedOk :: "SnapshotCall \<Rightarrow> bool" where
  "fetchedOk c = (case call_fetched c of Inl _ \<Rightarrow> False | Inr _ \<Rightarrow> True)"

text \<open>
  In the words of the specification: the state a call of the sequence captures is the
  content of the document it read, under the call's id, time and label.
\<close>

definition callSnapshot :: "string \<Rightarrow> SnapshotCall \<Rightarrow> DocumentSnapshot" where
  "callSnapshot documentId c =
     \<lparr>snap_id = call_newId c, snap_documentId = documentId, snap_timestamp = call_now c,
      snap_label = call_label c,
      snap_body =
        (case call_fetched c of
           Inl _ \<Rightarrow> []
         | Inr doc \<Rightarrow> (case doc_bodyContent doc of None \<Rightarrow> [] | Some b \<Rightarrow> b)),
      snap_inlineObjects =
        (case call_fetched c of
           Inl _ \<Rightarrow> Map.empty
         | Inr doc \<Rightarrow> (case doc_inlineObjects doc of None \<Rightarrow> Map.empty | Some m \<Rightarrow> m))\<rparr>"

text \<open>The sample document: the body with the sample table, and three inline objects.\<close>

definition sampleInlineObjects :: "string \<rightharpoonup> InlineObject" where
  "sampleInlineObjects =
     [''img1'' \<mapsto> \<lparr>contentUri = Some ''u1'', sourceUri = None, sizeWidth = None, sizeHeight = None\<rparr>,
      ''img2'' \<mapsto> \<lparr>contentUri = None, sourceUri = Some ''u2'', sizeWidth = None, sizeHeight = None\<rparr>,
      ''img3'' \<mapsto> \<lparr>contentUri = Some ''u3'', sourceUri = None, sizeWidth = None, sizeHeight = None\<rparr>]"

definition sampleDocument :: DocumentData where
  "sampleDocument =
     \<lparr>doc_bodyContent = Some sampleBody, doc_inlineObjects = Some sampleInlineObjects\<rparr>"

definition sampleCall :: "nat \<Rightarrow> SnapshotCall" where
  "sampleCall n =
     \<lparr>call_fetched = Inr sampleDocument, call_newId = ''snap_'' @ show_nat n,
      call_now = int n, call_label = ''snapshot''\<rparr>"

definition sampleSnapshot :: "string \<Rightarrow> DocumentSnapshot" where
  "sampleSnapshot i =
     \<lparr>snap_id = i, snap_documentId = ''doc'', snap_timestamp = 0, snap_label = ''snapshot'',
      snap_body = sampleBody, snap_inlineObjects = sampleInlineObjects\<rparr>"

text \<open>A store where the document has one undo entry and one redo entry.\<close>

definition sampleStacks :: SnapshotStacks where
  "sampleStacks =
     [''doc'' \<mapsto> \<lparr>undoStack = [sampleSnapshot ''a''], redoStack = [sampleSnapshot ''b'']\<rparr>]"

section \<open>Formatted runs and their extraction\<close>

text \<open>
  A character of the model is one code unit of a source string, so \<open>length\<close> is the
  source's \<open>.length\<close>; the model has the code units below 256, and the texts of a document
  are taken to consist of them.
\<close>

record FormattedRun =
  run_text :: string
  run_style :: "TextStyleArgs option"

text \<open>\<open>ImageInfo & { offset: number }\<close>\<close>

record PositionedImage =
  img_uri :: string
  img_width :: "real option"
  img_height :: "real option"
  img_offset :: int

record ParagraphContent =
  runs :: "FormattedRun list"
  imageInfo :: "PositionedImage list"
  namedStyle :: "string option"











text \<open>A string that is present and not empty, as \<open>if (s)\<close> tests it.\<close>

definition truthyText :: "string option \<Rightarrow> string option" where
  "truthyText s = (case s of None \<Rightarrow> None | Some v \<Rightarrow> if v = [] then None else Some v)"






section \<open>Style requests of formatted runs\<close>

text \<open>
  The builders call \<open>buildUpdateTextStyleRequest(startIndex, endIndex, style, tabId)\<close> of
  the module \<open>googleDocsApiHelpers\<close> and take what it returns: the request, or nothing
  (\<open>null\<close>). They take that function as the parameter \<open>mkStyle\<close>.
\<close>

type_synonym StyleRequestBuilder =
  "int \<Rightarrow> int \<Rightarrow> TextStyleArgs \<Rightarrow> string option \<Rightarrow> UpdateTextStyleRequest option"

text \<open>
  Modelled from the spec: \<open>buildUpdateTextStyleRequest\<close> of the module
  \<open>googleDocsApiHelpers\<close>, whose source is missing. The specification has a run-style
  operation be a style update over the range of the run, \<open>emitted only when the run
  carries non-empty style attributes\<close>, and its data model has a style attribute present
  only if it deviates from the default. So the function returns nothing for the style
  record with no attribute present, and otherwise the style update over the given range
  that carries the attributes of the record. The tools that call it answer
  \<open>No valid text styling options were provided.\<close> when it returns nothing.
\<close>

definition buildUpdateTextStyleRequest :: StyleRequestBuilder where
  "buildUpdateTextStyleRequest startIdx endIdx style tabId =
     (if style = emptyStyle then None
      else Some \<lparr>uts_startIndex = startIdx, uts_endIndex = endIdx, uts_tabId = tabId,
                 uts_style = style\<rparr>)"

text \<open>
  The body of the run loop, the same in \<open>buildFormattedCellFormatRequests\<close>,
  \<open>restoreParagraphBatch\<close> and \<open>copyParagraphBatch\<close>: the requests one run at
  \<open>offset\<close> adds.
\<close>

definition runStyleRequests ::
  "StyleRequestBuilder \<Rightarrow> string option \<Rightarrow> int \<Rightarrow> FormattedRun \<Rightarrow> Request list" where
  "runStyleRequests mkStyle tabId offset run =
     (let runEnd = offset + int (length (run_text run)) in
      case run_style run of
        None \<Rightarrow> []
      | Some style \<Rightarrow>
          if length (run_text run) > 0 then
            (case mkStyle offset runEnd style tabId of
               None \<Rightarrow> []
             | Some request \<Rightarrow> [UpdateTextStyle request])
          else [])"

fun runStyleLoop ::
  "StyleRequestBuilder \<Rightarrow> string option \<Rightarrow> FormattedRun list \<Rightarrow> int \<Rightarrow> Request list
     \<Rightarrow> Request list" where
  "runStyleLoop mkStyle tabId [] offset reqs = reqs"
| "runStyleLoop mkStyle tabId (run # rest) offset reqs =
     runStyleLoop mkStyle tabId rest (offset + int (length (run_text run)))
       (reqs @ runStyleRequests mkStyle tabId offset run)"


section \<open>Restoring and copying a batch of paragraphs\<close>

text \<open>\<open>pd.runs.map(r => r.text).join('')\<close>\<close>

definition paragraphText :: "ParagraphContent \<Rightarrow> string" where
  "paragraphText pd = concat (map run_text (runs pd))"


text \<open>\<open>{ ...pd, startIndex: paraStart }\<close>\<close>

record IndexedParagraph =
  ip_content :: ParagraphContent
  ip_startIndex :: int

record ParagraphLoopState =
  pl_offset :: int
  paraDataWithIndex :: "IndexedParagraph list"
  paraStyleRequests :: "Request list"
  formatRequests :: "Request list"

text \<open>The paragraph style request of one block: \<open>pd.namedStyle && pd.namedStyle !== 'NORMAL_TEXT'\<close>.\<close>

definition paragraphStyleRequest :: "int \<Rightarrow> int \<Rightarrow> ParagraphContent \<Rightarrow> Request list" where
  "paragraphStyleRequest paraStart paraEnd pd =
     (case truthyText (namedStyle pd) of
        None \<Rightarrow> []
      | Some style \<Rightarrow>
          if style \<noteq> ''NORMAL_TEXT'' then [UpdateParagraphStyle paraStart paraEnd style] else [])"

text \<open>
  The loop over the blocks (phase 2). \<open>copyParagraphBatch\<close> runs the same loop and
  stores the start offset in the block itself (\<open>pd.startIndex = paraStart\<close>).
\<close>

fun paragraphLoop ::
  "StyleRequestBuilder \<Rightarrow> ParagraphContent list \<Rightarrow> ParagraphLoopState \<Rightarrow> ParagraphLoopState" where
  "paragraphLoop mkStyle [] st = st"
| "paragraphLoop mkStyle (pd # rest) st =
     (let paraStart = pl_offset st;
          paraTextLen = int (length (paragraphText pd));
          paraEnd = pl_offset st + paraTextLen + 1
      in paragraphLoop mkStyle rest
           \<lparr>pl_offset = paraEnd,
            paraDataWithIndex = paraDataWithIndex st @ [\<lparr>ip_content = pd, ip_startIndex = paraStart\<rparr>],
            paraStyleRequests = paraStyleRequests st @ paragraphStyleRequest paraStart paraEnd pd,
            formatRequests = runStyleLoop mkStyle None (runs pd) paraStart (formatRequests st)\<rparr>)"

definition planParagraphs ::
  "StyleRequestBuilder \<Rightarrow> ParagraphContent list \<Rightarrow> int \<Rightarrow> ParagraphLoopState" where
  "planParagraphs mkStyle paraData insertPoint =
     paragraphLoop mkStyle paraData
       \<lparr>pl_offset = insertPoint, paraDataWithIndex = [], paraStyleRequests = [],
        formatRequests = []\<rparr>"





section \<open>Remote calls and logging\<close>

text \<open>
  The remote document, the log and whatever else a remote call or a log call changes are
  a world \<open>'w\<close>. The collaborators are parameters: \<open>docs.documents.get\<close>, the executors of
  \<open>googleDocsApiHelpers\<close>, the logger and the
  runtime's rendering of a number. A call that rejects returns an error.
\<close>

record 'w Remote =
  documentsGet :: "string \<Rightarrow> 'w \<Rightarrow> (error + DocumentData) \<times> 'w"
  executeBatchUpdate :: "string \<Rightarrow> Request list \<Rightarrow> 'w \<Rightarrow> error option \<times> 'w"
  executeBatchUpdateChunked :: "string \<Rightarrow> Request list \<Rightarrow> nat \<Rightarrow> 'w \<Rightarrow> error option \<times> 'w"
  executeBatchUpdateWithSplitting :: "string \<Rightarrow> Request list \<Rightarrow> 'w \<Rightarrow> error option \<times> 'w"
  logInfo :: "string \<Rightarrow> 'w \<Rightarrow> 'w"
  logError :: "string \<Rightarrow> 'w \<Rightarrow> 'w"
  numberToString :: "real \<Rightarrow> string"
















subsection \<open>Offsets in the words of the specification\<close>

text \<open>
  The start offset of the block at position \<open>i\<close>: the starting offset plus, for every prior
  block, its text length and one for its terminating newline.
\<close>

definition blockStart :: "int \<Rightarrow> ParagraphContent list \<Rightarrow> nat \<Rightarrow> int" where
  "blockStart s paraData i =
     s + sum_list (map (\<lambda>p. int (length (paragraphText p)) + 1) (take i paraData))"


subsection \<open>Sample blocks\<close>

definition plainRun :: "string \<Rightarrow> FormattedRun" where
  "plainRun s = \<lparr>run_text = s, run_style = None\<rparr>"

definition boldRun :: "string \<Rightarrow> FormattedRun" where
  "boldRun s = \<lparr>run_text = s, run_style = Some (emptyStyle\<lparr>bold := Some True\<rparr>)\<rparr>"

definition sampleImage :: "string \<Rightarrow> int \<Rightarrow> PositionedImage" where
  "sampleImage u off = \<lparr>img_uri = u, img_width = None, img_height = None, img_offset = off\<rparr>"

text \<open>
  A heading \<open>Title\<close>, a paragraph \<open>ab\<close>\<^bold>\<open>cd\<close> with an image after \<open>ab\<close>, and a
  \<open>NORMAL_TEXT\<close> paragraph that holds an image only.
\<close>

definition sampleBlocks :: "ParagraphContent list" where
  "sampleBlocks =
     [\<lparr>runs = [plainRun ''Title''], imageInfo = [], namedStyle = Some ''HEADING_1''\<rparr>,
      \<lparr>runs = [plainRun ''ab'', boldRun ''cd''], imageInfo = [sampleImage ''u1'' 2],
       namedStyle = None\<rparr>,
      \<lparr>runs = [], imageInfo = [sampleImage ''u2'' 0], namedStyle = Some ''NORMAL_TEXT''\<rparr>]"




subsection \<open>A remote that records what it is asked\<close>

text \<open>
  A world that keeps the remote calls and the log lines in order. \<open>tracingRemote\<close> returns
  \<open>fetched\<close> for every read and lets \<open>outcome\<close> decide, from the requests of a call,
  whether the call rejects.
\<close>

record Trace =
  tr_calls :: "Request list list"
  tr_infos :: "string list"
  tr_errors :: "string list"

definition emptyTrace :: Trace where
  "emptyTrace = \<lparr>tr_calls = [], tr_infos = [], tr_errors = []\<rparr>"

definition tracingRemote ::
  "(error + DocumentData) \<Rightarrow> (Request list \<Rightarrow> error option) \<Rightarrow> Trace Remote" where
  "tracingRemote fetched outcome =
     \<lparr>documentsGet = (\<lambda>d w. (fetched, w)),
      executeBatchUpdate = (\<lambda>d reqs w. (outcome reqs, w\<lparr>tr_calls := tr_calls w @ [reqs]\<rparr>)),
      executeBatchUpdateChunked =
        (\<lambda>d reqs n w. (outcome reqs, w\<lparr>tr_calls := tr_calls w @ [reqs]\<rparr>)),
      executeBatchUpdateWithSplitting =
        (\<lambda>d reqs w. (outcome reqs, w\<lparr>tr_calls := tr_calls w @ [reqs]\<rparr>)),
      logInfo = (\<lambda>m w. w\<lparr>tr_infos := tr_infos w @ [m]\<rparr>),
      logError = (\<lambda>m w. w\<lparr>tr_errors := tr_errors w @ [m]\<rparr>),
      numberToString = (\<lambda>x. ''n'')\<rparr>"



section \<open>Filling the tables a markdown conversion created\<close>

text \<open>\<open>PendingTableFill\<close> of the markdown converter.\<close>

record PendingTableFill =
  pf_insertIndex :: int
  pf_data :: "string list list"
  pf_rows :: int
  pf_columns :: int
  pf_hasBoldHeaders :: bool

text \<open>
  The predicate of \<open>tables.find\<close>:
  \<open>si != null && si >= fill.insertIndex - 1 && si <= fill.insertIndex + fill.rows * fill.columns * 3\<close>.
\<close>

definition inToleranceWindow :: "PendingTableFill \<Rightarrow> StructuralElement \<Rightarrow> bool" where
  "inToleranceWindow fill t =
     (case el_startIndex t of
        None \<Rightarrow> False
      | Some si \<Rightarrow>
          si \<ge> pf_insertIndex fill - 1
          \<and> si \<le> pf_insertIndex fill + pf_rows fill * pf_columns fill * 3)"

text \<open>
  \<open>tables.find(...)\<close> followed by \<open>tables.indexOf(tableEl)\<close>: the first table that
  satisfies the predicate, and its position, which is the number of tables before it.
\<close>

definition locateTable ::
  "PendingTableFill \<Rightarrow> StructuralElement list \<Rightarrow> (nat \<times> StructuralElement) option" where
  "locateTable fill tables =
     (case find (inToleranceWindow fill) tables of
        None \<Rightarrow> None
      | Some tableEl \<Rightarrow>
          Some (length (takeWhile (\<lambda>t. \<not> inToleranceWindow fill t) tables), tableEl))"

text \<open>The edits of the non-empty cells of the grid, row by row.\<close>

definition fillEdits :: "string list list \<Rightarrow> CellEdit list" where
  "fillEdits cellData =
     concat (map (\<lambda>(r, rowData).
                    concat (map (\<lambda>(c, t). if t \<noteq> []
                                   then [\<lparr>edit_row = int r, edit_col = int c, edit_text = t\<rparr>]
                                   else [])
                              (enumerate 0 rowData)))
               (enumerate 0 cellData))"

definition getCellRange :: "TableCell \<Rightarrow> error + IndexRange" where
  "getCellRange cell =
     (case cell_content cell of
        None \<Rightarrow> Inl (UserError ''Cell has no content elements.'')
      | Some [] \<Rightarrow> Inl (UserError ''Cell has no content elements.'')
      | Some (c # cs) \<Rightarrow>
          (let s = (case el_startIndex c of None \<Rightarrow> 0 | Some i \<Rightarrow> i) in
           Inr \<lparr>startIndex = s,
                endIndex = (case el_endIndex (last (c # cs)) of None \<Rightarrow> s | Some e \<Rightarrow> e)\<rparr>))"

definition boldStyle :: TextStyleArgs where
  "boldStyle = emptyStyle\<lparr>bold := Some True\<rparr>"

text \<open>The loop over the cells of the header row.\<close>

fun boldHeaderLoop ::
  "StyleRequestBuilder \<Rightarrow> TableCell list \<Rightarrow> Request list \<Rightarrow> error + Request list" where
  "boldHeaderLoop mkStyle [] boldRequests = Inr boldRequests"
| "boldHeaderLoop mkStyle (cell # rest) boldRequests =
     (case cell_content cell of
        None \<Rightarrow> boldHeaderLoop mkStyle rest boldRequests
      | Some cs \<Rightarrow>
          (case getCellRange cell of
             Inl e \<Rightarrow> Inl e
           | Inr cellRange \<Rightarrow>
               if endIndex cellRange > startIndex cellRange + 1 then
                 (case mkStyle (startIndex cellRange) (endIndex cellRange - 1) boldStyle None of
                    None \<Rightarrow> boldHeaderLoop mkStyle rest boldRequests
                  | Some request \<Rightarrow>
                      boldHeaderLoop mkStyle rest (boldRequests @ [UpdateTextStyle request]))
               else boldHeaderLoop mkStyle rest boldRequests))"

text \<open>\<open>if (log) log.info(msg)\<close>: the logger is optional.\<close>

definition logIf :: "'w Remote \<Rightarrow> bool \<Rightarrow> string \<Rightarrow> 'w \<Rightarrow> 'w" where
  "logIf remote hasLog msg w = (if hasLog then logInfo remote msg w else w)"

text \<open>\<open>tbl2?.table?.tableRows?.[0]?.tableCells\<close> of \<open>tables2[tableIndex]\<close>\<close>

definition headerCells :: "StructuralElement list \<Rightarrow> nat \<Rightarrow> TableCell list option" where
  "headerCells tables2 tableIndex =
     (if tableIndex < length tables2 then
        (case el_table (tables2 ! tableIndex) of
           None \<Rightarrow> None
         | Some tbl \<Rightarrow>
             (case tableRows tbl of
                None \<Rightarrow> None
              | Some [] \<Rightarrow> None
              | Some (row0 # rows) \<Rightarrow> tableCells row0))
      else None)"

text \<open>The bold-header step after the fill of one table: the document is read again.\<close>

definition boldHeaders ::
  "'w Remote \<Rightarrow> StyleRequestBuilder \<Rightarrow> string \<Rightarrow> bool \<Rightarrow> nat \<Rightarrow> 'w \<Rightarrow> error option \<times> 'w" where
  "boldHeaders remote mkStyle documentId hasLog tableIndex w =
     (case documentsGet remote documentId w of
        (Inl e, w1) \<Rightarrow> (Some e, w1)
      | (Inr doc2, w1) \<Rightarrow>
          (case doc_bodyContent doc2 of
             None \<Rightarrow> (None, w1)
           | Some body2 \<Rightarrow>
               (case headerCells (extractTableElements body2) tableIndex of
                  None \<Rightarrow> (None, w1)
                | Some cells \<Rightarrow>
                    (case boldHeaderLoop mkStyle cells [] of
                       Inl e \<Rightarrow> (Some e, w1)
                     | Inr boldRequests \<Rightarrow>
                         if length boldRequests > 0 then
                           (case executeBatchUpdate remote documentId boldRequests w1 of
                              (Some e, w2) \<Rightarrow> (Some e, w2)
                            | (None, w2) \<Rightarrow>
                                (None, logIf remote hasLog
                                   (''Bolded '' @ show_nat (length boldRequests) @ '' header cells'')
                                   w2))
                         else (None, w1)))))"

definition warningMessage :: "PendingTableFill \<Rightarrow> string" where
  "warningMessage fill =
     ''Warning: could not locate table inserted at index '' @ show_int (pf_insertIndex fill)
       @ '', skipping fill''"

text \<open>
  The separator between the rows and the columns in the log line. The source has the two
  characters U+00C3 and U+2014 there. A character of the model has eight bits, so the
  separator is written as the five bytes of these two characters in UTF-8, as they stand in
  the source file; the line the code logs has two code units in their place.
\<close>

definition rowsColumnsSeparator :: string where
  "rowsColumnsSeparator = [CHR 0xC3, CHR 0x83, CHR 0xE2, CHR 0x80, CHR 0x94]"

definition fillingMessage :: "nat \<Rightarrow> PendingTableFill \<Rightarrow> string" where
  "fillingMessage tableIndex fill =
     ''Filling table '' @ show_nat tableIndex @ '' ('' @ show_int (pf_rows fill)
       @ rowsColumnsSeparator @ show_int (pf_columns fill) @ '') with data''"

text \<open>
  The body of the loop of \<open>fillPendingTables\<close> for one fill. \<open>bodyContent\<close> and \<open>tables\<close>
  are those of the one read before the loop.
\<close>

definition fillTable ::
  "'w Remote \<Rightarrow> StyleRequestBuilder \<Rightarrow> string \<Rightarrow> bool \<Rightarrow> StructuralElement list
     \<Rightarrow> StructuralElement list \<Rightarrow> PendingTableFill \<Rightarrow> 'w \<Rightarrow> error option \<times> 'w" where
  "fillTable remote mkStyle documentId hasLog bodyContent tables fill w =
     (case locateTable fill tables of
        None \<Rightarrow> (None, logIf remote hasLog (warningMessage fill) w)
      | Some (tableIndex, tableEl) \<Rightarrow>
          (case el_table tableEl of
             None \<Rightarrow> (None, logIf remote hasLog (warningMessage fill) w)
           | Some tbl \<Rightarrow>
               (let w1 = logIf remote hasLog (fillingMessage tableIndex fill) w;
                    edits = fillEdits (pf_data fill)
                in if length edits = 0 then (None, w1)
                   else
                     (case buildBatchEditCellRequests bodyContent (int tableIndex) edits None of
                        Inl e \<Rightarrow> (Some e, w1)
                      | Inr reqs \<Rightarrow>
                          (case (if length reqs > 0
                                 then executeBatchUpdateChunked remote documentId reqs 50 w1
                                 else (None, w1)) of
                             (Some e, w2) \<Rightarrow> (Some e, w2)
                           | (None, w2) \<Rightarrow>
                               if pf_hasBoldHeaders fill
                               then boldHeaders remote mkStyle documentId hasLog tableIndex w2
                               else (None, w2))))))"

fun fillLoop ::
  "'w Remote \<Rightarrow> StyleRequestBuilder \<Rightarrow> string \<Rightarrow> bool \<Rightarrow> StructuralElement list
     \<Rightarrow> StructuralElement list \<Rightarrow> PendingTableFill list \<Rightarrow> 'w \<Rightarrow> error option \<times> 'w" where
  "fillLoop remote mkStyle documentId hasLog bodyContent tables [] w = (None, w)"
| "fillLoop remote mkStyle documentId hasLog bodyContent tables (fill # rest) w =
     (case fillTable remote mkStyle documentId hasLog bodyContent tables fill w of
        (Some e, w1) \<Rightarrow> (Some e, w1)
      | (None, w1) \<Rightarrow> fillLoop remote mkStyle documentId hasLog bodyContent tables rest w1)"

definition fillPendingTables ::
  "'w Remote \<Rightarrow> StyleRequestBuilder \<Rightarrow> string \<Rightarrow> PendingTableFill list \<Rightarrow> bool \<Rightarrow> 'w
     \<Rightarrow> error option \<times> 'w" where
  "fillPendingTables remote mkStyle documentId pendingFills hasLog w =
     (case documentsGet remote documentId w of
        (Inl e, w1) \<Rightarrow> (Some e, w1)
      | (Inr res, w1) \<Rightarrow>
          (case doc_bodyContent res of
             None \<Rightarrow> (None, w1)
           | Some bodyContent \<Rightarrow>
               fillLoop remote mkStyle documentId hasLog bodyContent
                 (extractTableElements bodyContent) pendingFills w1))"

section \<open>Multi-phase execution of markdown with tables\<close>

text \<open>
  \<open>convertMarkdownToRequestsWithTables\<close> runs the parser of the markdown library; the
  conversion is the parameter \<open>convert\<close>, which returns the result or the error it
  throws.
\<close>

record ConversionResult =
  cr_requests :: "Request list"
  cr_pendingTableFills :: "PendingTableFill list"
  cr_postTableContent :: "string option"

type_synonym Converter = "string \<Rightarrow> int \<Rightarrow> string option \<Rightarrow> error + ConversionResult"

definition phaseMessage :: "nat \<Rightarrow> ConversionResult \<Rightarrow> string" where
  "phaseMessage depth cr =
     ''Phase '' @ show_nat (depth + 1) @ '': '' @ show_nat (length (cr_requests cr))
       @ '' requests, '' @ show_nat (length (cr_pendingTableFills cr))
       @ '' tables, postTableContent: ''
       @ (case truthyText (cr_postTableContent cr) of
            None \<Rightarrow> ''none''
          | Some p \<Rightarrow> show_nat (length p) @ '' chars'')"

text \<open>
  One phase, the body up to \<open>if (postTableContent)\<close>: convert, log, execute the requests,
  fill the tables.
\<close>

definition runPhase ::
  "'w Remote \<Rightarrow> StyleRequestBuilder \<Rightarrow> Converter \<Rightarrow> string \<Rightarrow> string \<Rightarrow> int \<Rightarrow> string option
     \<Rightarrow> nat \<Rightarrow> 'w \<Rightarrow> (error + ConversionResult) \<times> 'w" where
  "runPhase remote mkStyle convert documentId markdown startIdx tabId depth w =
     (case convert markdown startIdx tabId of
        Inl e \<Rightarrow> (Inl e, w)
      | Inr cr \<Rightarrow>
          (let w1 = logInfo remote (phaseMessage depth cr) w in
           case (if length (cr_requests cr) > 0
                 then executeBatchUpdateWithSplitting remote documentId (cr_requests cr) w1
                 else (None, w1)) of
             (Some e, w2) \<Rightarrow> (Inl e, w2)
           | (None, w2) \<Rightarrow>
               (case (if length (cr_pendingTableFills cr) > 0
                      then fillPendingTables remote mkStyle documentId (cr_pendingTableFills cr)
                             True w2
                      else (None, w2)) of
                  (Some e, w3) \<Rightarrow> (Inl e, w3)
                | (None, w3) \<Rightarrow> (Inr cr, w3))))"

text \<open>
  The re-read before the next phase: the new end of content, or nothing when the body is
  missing or empty. The source asserts \<open>endIndex\<close> present. For a last element without it
  the runtime computes \<open>NaN\<close> and enters the next phase with that as the offset; the offsets
  of the model are integers, so the model ends the call there with an error, and says
  nothing of what follows in the code.
\<close>

definition endOfContent :: "'w Remote \<Rightarrow> string \<Rightarrow> 'w \<Rightarrow> (error + int option) \<times> 'w" where
  "endOfContent remote documentId w =
     (case documentsGet remote documentId w of
        (Inl e, w1) \<Rightarrow> (Inl e, w1)
      | (Inr doc2, w1) \<Rightarrow>
          (case doc_bodyContent doc2 of
             None \<Rightarrow> (Inr None, w1)
           | Some [] \<Rightarrow> (Inr None, w1)
           | Some (el # els) \<Rightarrow>
               (case el_endIndex (last (el # els)) of
                  None \<Rightarrow> (Inl (TypeError ''endIndex''), w1)
                | Some e \<Rightarrow> (Inr (Some (e - 1)), w1))))"

definition limitMessage :: string where
  "limitMessage = ''Too many nested tables in markdown (max 10). Simplify the document.''"

function executeMarkdownWithTables ::
  "'w Remote \<Rightarrow> StyleRequestBuilder \<Rightarrow> Converter \<Rightarrow> string \<Rightarrow> string \<Rightarrow> int \<Rightarrow> string option
     \<Rightarrow> nat \<Rightarrow> 'w \<Rightarrow> (error + nat \<times> nat) \<times> 'w" where
  "executeMarkdownWithTables remote mkStyle convert documentId markdown startIdx tabId depth w =
     (if depth > 10 then (Inl (UserError limitMessage), w)
      else
        (case runPhase remote mkStyle convert documentId markdown startIdx tabId depth w of
           (Inl e, w3) \<Rightarrow> (Inl e, w3)
         | (Inr cr, w3) \<Rightarrow>
             (case truthyText (cr_postTableContent cr) of
                None \<Rightarrow> (Inr (length (cr_requests cr), length (cr_pendingTableFills cr)), w3)
              | Some postTableContent \<Rightarrow>
                  (case endOfContent remote documentId w3 of
                     (Inl e, w4) \<Rightarrow> (Inl e, w4)
                   | (Inr None, w4) \<Rightarrow>
                       (Inr (length (cr_requests cr), length (cr_pendingTableFills cr)), w4)
                   | (Inr (Some newEndIndex), w4) \<Rightarrow>
                       (case executeMarkdownWithTables remote mkStyle convert documentId
                               postTableContent newEndIndex tabId (depth + 1)
                               (logInfo remote
                                  (''Appending post-table content at index ''
                                     @ show_int newEndIndex) w4) of
                          (Inl e, w5) \<Rightarrow> (Inl e, w5)
                        | (Inr (subOps, subTables), w5) \<Rightarrow>
                            (Inr (length (cr_requests cr) + subOps,
                                  length (cr_pendingTableFills cr) + subTables), w5))))))"
  by pat_completeness auto
termination
  by (relation "measure (\<lambda>(remote, mkStyle, convert, documentId, markdown, startIdx, tabId, depth, w).
                 11 - depth)") auto

declare executeMarkdownWithTables.simps [simp del]

subsection \<open>Sample fills and conversions\<close>






text \<open>A fill recorded at offset 100, far from every table of the sample document.\<close>

definition farFill :: PendingTableFill where
  "farFill =
     \<lparr>pf_insertIndex = 100, pf_data = [ [''A'', ''B''] ], pf_rows = 1, pf_columns = 2,
      pf_hasBoldHeaders = False\<rparr>"

definition succeeds :: "Request list \<Rightarrow> error option" where
  "succeeds reqs = None"

text \<open>A conversion that yields one table request, the far fill and no trailing content.\<close>

definition farTableConverter :: Converter where
  "farTableConverter markdown startIdx tabId =
     Inr \<lparr>cr_requests = [OtherRequest ''insertTable''], cr_pendingTableFills = [farFill],
          cr_postTableContent = None\<rparr>"

text \<open>A conversion that consumes one character per phase and leaves the rest as trailing content.\<close>

definition oneCharConverter :: Converter where
  "oneCharConverter markdown startIdx tabId =
     Inr \<lparr>cr_requests = [], cr_pendingTableFills = [],
          cr_postTableContent = (if tl markdown = [] then None else Some (tl markdown))\<rparr>"

text \<open>A conversion that always leaves trailing content.\<close>

definition endlessConverter :: Converter where
  "endlessConverter markdown startIdx tabId =
     Inr \<lparr>cr_requests = [], cr_pendingTableFills = [], cr_postTableContent = Some ''x''\<rparr>"

text \<open>The log lines that announce a phase: those that start with \<open>Phase\<close> and a blank.\<close>

definition isPhaseLine :: "string \<Rightarrow> bool" where
  "isPhaseLine msg = (take 6 msg = ''Phase '')"

definition phaseLines :: "Trace \<Rightarrow> string list" where
  "phaseLines w = filter isPhaseLine (tr_infos w)"

section \<open>Verified properties\<close>

subsection \<open>Bounds checking of the accessors\<close>

text \<open>
  Claim C3. A table index outside \<open>[0, number of tables)\<close>, a row index outside
  \<open>[0, number of rows)\<close> and a column index outside \<open>[0, number of cells of the row)\<close>
  each make the accessor raise a \<open>UserError\<close> whose message names the attempted index and
  the bound; an index inside the bounds returns the element at exactly that index.
\<close>

theorem accessors_index_out_of_range:
  "(tableIndex < 0 \<or> tableIndex \<ge> int (length (extractTableElements bodyContent)) \<longrightarrow>
      getTableElement bodyContent tableIndex =
        Inl (UserError (''Table index '' @ show_int tableIndex @ '' out of range. Document has ''
              @ show_nat (length (extractTableElements bodyContent)) @ '' table(s) (0-indexed).'')))
   \<and> (0 \<le> tableIndex \<and> tableIndex < int (length (extractTableElements bodyContent)) \<longrightarrow>
      getTableElement bodyContent tableIndex = Inr (extractTableElements bodyContent ! nat tableIndex))
   \<and> (r < 0 \<or> r \<ge> int (opt_length (tableRows tbl)) \<longrightarrow>
      getCellElement tbl r c =
        Inl (UserError (''Row '' @ show_int r @ '' out of range. Table has ''
              @ show_nat (opt_length (tableRows tbl)) @ '' rows (0-indexed).'')))
   \<and> (tableRows tbl = Some rows \<and> 0 \<le> r \<and> r < int (length rows) \<and>
        (c < 0 \<or> c \<ge> int (opt_length (tableCells (rows ! nat r)))) \<longrightarrow>
      getCellElement tbl r c =
        Inl (UserError (''Column '' @ show_int c @ '' out of range. Row '' @ show_int r
              @ '' has '' @ show_nat (opt_length (tableCells (rows ! nat r)))
              @ '' columns (0-indexed).'')))
   \<and> (tableRows tbl = Some rows \<and> 0 \<le> r \<and> r < int (length rows) \<and>
        tableCells (rows ! nat r) = Some cells \<and> 0 \<le> c \<and> c < int (length cells) \<longrightarrow>
      getCellElement tbl r c = Inr (cells ! nat c))"
  by (auto simp: getTableElement_def getCellElement_def opt_length_def Let_def split: option.splits)

text \<open>Row 5 of a three-row table, and table 1 and column 2 of the sample document.\<close>

theorem accessors_index_out_of_range_witness:
  "getCellElement threeRowTable 5 0
     = Inl (UserError ''Row 5 out of range. Table has 3 rows (0-indexed).'')
   \<and> getTableElement sampleBody 1
     = Inl (UserError ''Table index 1 out of range. Document has 1 table(s) (0-indexed).'')
   \<and> getCellElement sampleTable 0 2
     = Inl (UserError ''Column 2 out of range. Row 0 has 2 columns (0-indexed).'')
   \<and> getCellElement sampleTable 0 1 = Inr blankCell"
proof -
  have row: "getCellElement threeRowTable 5 0
     = Inl (UserError ''Row 5 out of range. Table has 3 rows (0-indexed).'')"
    using accessors_index_out_of_range [of 0 "[]" 5 threeRowTable 0 "[]" "[]"]
    by (simp add: threeRowTable_def opt_length_def show_int_def show_nat.simps digit_char_def)
  have tables: "extractTableElements sampleBody = [sampleTableElement]"
    by (simp add: extractTableElements_def sampleBody_def sampleTableElement_def paragraphAt_def)
  have tbl: "getTableElement sampleBody 1
     = Inl (UserError ''Table index 1 out of range. Document has 1 table(s) (0-indexed).'')"
    using accessors_index_out_of_range [of 1 sampleBody 0 sampleTable 0 "[]" "[]"] tables
    by (simp add: show_int_def show_nat.simps digit_char_def)
  have col: "getCellElement sampleTable 0 2
     = Inl (UserError ''Column 2 out of range. Row 0 has 2 columns (0-indexed).'')"
    using accessors_index_out_of_range
      [of 0 "[]" 0 sampleTable 2 "[TableRow (Some [textImageCell, blankCell])]" "[]"]
    by (simp add: sampleTable_def opt_length_def show_int_def show_nat.simps digit_char_def)
  have cell: "getCellElement sampleTable 0 1 = Inr blankCell"
    using accessors_index_out_of_range
      [of 0 "[]" 0 sampleTable 1 "[TableRow (Some [textImageCell, blankCell])]"
          "[textImageCell, blankCell]"]
    by (simp add: sampleTable_def)
  show ?thesis using row tbl col cell by simp
qed

subsection \<open>Replacing the text of one cell\<close>

lemma cellTextRangesLoop_eq:
  "cellTextRangesLoop cs acc = acc @ concat (map paragraphTextRange cs)"
  by (induction cs arbitrary: acc) simp_all

lemma list_ex_concat_map:
  "list_ex P (concat (map f xs)) = list_ex (\<lambda>x. list_ex P (f x)) xs"
  by (induction xs) simp_all

lemma textBearingParagraph_eq:
  "textBearingParagraph el =
     (case el_paragraph el of
        None \<Rightarrow> False
      | Some para \<Rightarrow>
          (case elements para of None \<Rightarrow> False | Some pes \<Rightarrow> list_ex isTextRunElement pes))"
proof -
  have "list_ex (\<lambda>c. c \<noteq> [] \<and> c \<noteq> [CHR 0x0A])
          (case textRun pe of
             None \<Rightarrow> []
           | Some tr \<Rightarrow> (case content tr of None \<Rightarrow> [] | Some c \<Rightarrow> [c]))
        = isTextRunElement pe" for pe
    by (simp add: isTextRunElement_def split: option.splits)
  then show ?thesis
    by (simp add: textBearingParagraph_def runContents_def list_ex_concat_map
        split: option.splits)
qed

lemma paragraphTextRange_eq:
  "paragraphTextRange el =
     (if textBearingParagraph el \<and> paragraphTextEnd el > paragraphStart el
      then [\<lparr>startIndex = paragraphStart el, endIndex = paragraphTextEnd el\<rparr>] else [])"
  by (simp add: paragraphTextRange_def textBearingParagraph_eq paragraphStart_def
      paragraphTextEnd_def Let_def split: option.splits)

lemma concat_map_if_filter:
  "concat (map (\<lambda>x. if P x then [f x] else []) xs) = map f (filter P xs)"
  by (induction xs) simp_all

lemma getCellTextRanges_qualifying: "getCellTextRanges cell = qualifyingRanges cell"
proof (cases "cell_content cell")
  case None
  then show ?thesis by (simp add: getCellTextRanges_def qualifyingRanges_def cellContents_def)
next
  case (Some cs)
  have "cellTextRangesLoop cs [] = concat (map paragraphTextRange cs)"
    by (simp add: cellTextRangesLoop_eq)
  also have "\<dots> = map (\<lambda>el. \<lparr>startIndex = paragraphStart el, endIndex = paragraphTextEnd el\<rparr>)
       (filter (\<lambda>el. textBearingParagraph el \<and> paragraphTextEnd el > paragraphStart el) cs)"
    unfolding paragraphTextRange_eq [abs_def] by (rule concat_map_if_filter)
  finally show ?thesis using Some
    by (simp add: getCellTextRanges_def qualifyingRanges_def cellContents_def)
qed

lemma lowestStartIndex_Min:
  "lowestStartIndex r rs = Min (startIndex ` set (r # rs))"
proof -
  have "fold (\<lambda>x m. min m (startIndex x)) xs (a::int) = Min (insert a (startIndex ` set xs))"
    for xs a
  proof (induction xs arbitrary: a)
    case Nil
    show ?case by simp
  next
    case (Cons x xs)
    have "Min (insert (min a (startIndex x)) (startIndex ` set xs))
            = Min (insert a (insert (startIndex x) (startIndex ` set xs)))"
    proof (cases "set xs = {}")
      case True
      then show ?thesis by (simp add: min.commute)
    next
      case False
      then show ?thesis by (simp add: min.assoc)
    qed
    then show ?case using Cons by simp
  qed
  then show ?thesis by (simp add: lowestStartIndex_def)
qed

lemma sortRangesDescending_sorted:
  "sorted_wrt (\<lambda>a b. startIndex a \<ge> startIndex b) (sortRangesDescending rs)"
proof -
  have "sorted (map (\<lambda>r. - startIndex r) (sort_key (\<lambda>r. - startIndex r) rs))"
    by (rule sorted_sort_key)
  then show ?thesis by (simp add: sortRangesDescending_def sorted_map)
qed

lemma sortRangesDescending_mset: "mset (sortRangesDescending rs) = mset rs"
  by (simp add: sortRangesDescending_def)

lemma sortRangesDescending_stable:
  "filter (\<lambda>r. startIndex r = k) (sortRangesDescending rs) = filter (\<lambda>r. startIndex r = k) rs"
  using sort_key_stable [of "\<lambda>r. - startIndex r" "- k" rs]
  by (simp add: sortRangesDescending_def)

lemma sampleBody_table: "getTableElement sampleBody 0 = Inr sampleTableElement"
  by (simp add: getTableElement_def extractTableElements_def sampleBody_def
      sampleTableElement_def paragraphAt_def)

lemma sampleTable_cell00: "getCellElement sampleTable 0 0 = Inr textImageCell"
  by (simp add: getCellElement_def sampleTable_def)

lemma sampleTable_cell01: "getCellElement sampleTable 0 1 = Inr blankCell"
  by (simp add: getCellElement_def sampleTable_def)

lemma textImageCell_ranges:
  "getCellTextRanges textImageCell = [\<lparr>startIndex = 5, endIndex = 7\<rparr>]"
  by (simp add: getCellTextRanges_def textImageCell_def paragraphTextRange_def paragraphAt_def
      isTextRunElement_def textElement_def imageElement_def)

lemma blankCell_ranges: "getCellTextRanges blankCell = []"
  by (simp add: getCellTextRanges_def blankCell_def paragraphTextRange_def paragraphAt_def
      isTextRunElement_def textElement_def)

lemma variedBody_table: "getTableElement variedBody 0 = Inr variedTableElement"
  by (simp add: getTableElement_def extractTableElements_def variedBody_def
      variedTableElement_def paragraphAt_def)

lemma variedTable_cells:
  "getCellElement variedTable 0 0 = Inr imageOnlyCell"
  "getCellElement variedTable 0 1 = Inr emptyContentCell"
  "getCellElement variedTable 0 2 = Inr noContentCell"
  "getCellElement variedTable 0 3 = Inr oneLetterCell"
  "getCellElement variedTable 0 4 = Inr twoParagraphCell"
  by (simp_all add: getCellElement_def variedTable_def)

lemma sample_qualifyingRanges:
  "qualifyingRanges textImageCell = [\<lparr>startIndex = 5, endIndex = 7\<rparr>]"
  "qualifyingRanges imageOnlyCell = []"
  "qualifyingRanges emptyContentCell = []"
  "qualifyingRanges noContentCell = []"
  "qualifyingRanges oneLetterCell = [\<lparr>startIndex = 24, endIndex = 25\<rparr>]"
  "qualifyingRanges twoParagraphCell =
     [\<lparr>startIndex = 27, endIndex = 29\<rparr>, \<lparr>startIndex = 30, endIndex = 32\<rparr>]"
  by (simp_all add: qualifyingRanges_def cellContents_def textBearingParagraph_def
      runContents_def paragraphStart_def paragraphTextEnd_def paragraphAt_def textElement_def
      imageElement_def textImageCell_def imageOnlyCell_def emptyContentCell_def
      noContentCell_def oneLetterCell_def twoParagraphCell_def)

lemma sample_cell_content:
  "cell_content imageOnlyCell =
     Some [StructuralElement (Some 20) (Some 22)
             (Some \<lparr>elements = Some [imageElement ''img2'', textElement [CHR 0x0A] ],
                    namedStyleType = None\<rparr>) None False,
           paragraphAt 22 23 [textElement [CHR 0x0A] ] ]"
  "cell_content emptyContentCell = Some []"
  "cell_content noContentCell = None"
  by (simp_all add: imageOnlyCell_def emptyContentCell_def noContentCell_def paragraphAt_def)

text \<open>
  Claim C1, as amended. For a cell that the accessors reach, the ranges the code collects
  are the qualifying ranges: one per paragraph that has a text run with a non-empty content
  other than the structural newline and that is not empty without its trailing newline, so
  an image-only paragraph gets no delete. When there is a qualifying range, the requests are
  one delete per qualifying range, stably sorted by descending start offset, followed by one
  insert of the new text at the lowest start offset when the new text is not empty, and by
  nothing when it is empty. When there is none, no delete is emitted: a non-empty new text
  is inserted at the start offset of the first content element of the cell (offset 0 when
  that element has no start offset), and a cell with no content element raises the error
  \<open>Cell has no content elements.\<close> In the branch without a range the code does not test
  the new text, where the batch builder does; the statement leaves the empty text in that
  branch out.
\<close>

theorem buildEditCellRequests_requests:
  assumes "getTableElement bodyContent tableIndex = Inr tableEl"
    and "el_table tableEl = Some tbl"
    and "getCellElement tbl r c = Inr cell"
  shows "getCellTextRanges cell = qualifyingRanges cell
    \<and> (qualifyingRanges cell \<noteq> [] \<longrightarrow>
         buildEditCellRequests bodyContent tableIndex r c newText =
           Inr (map (\<lambda>x. DeleteContentRange (startIndex x) (endIndex x) None)
                  (sortRangesDescending (qualifyingRanges cell))
                @ (if newText \<noteq> []
                   then [InsertText (Min (startIndex ` set (qualifyingRanges cell))) None newText]
                   else []))
         \<and> sorted_wrt (\<lambda>a b. startIndex a \<ge> startIndex b)
              (sortRangesDescending (qualifyingRanges cell))
         \<and> mset (sortRangesDescending (qualifyingRanges cell)) = mset (qualifyingRanges cell)
         \<and> (\<forall>k. filter (\<lambda>x. startIndex x = k) (sortRangesDescending (qualifyingRanges cell))
                = filter (\<lambda>x. startIndex x = k) (qualifyingRanges cell)))
    \<and> (qualifyingRanges cell = [] \<and> newText \<noteq> [] \<longrightarrow>
         (\<forall>el els. cell_content cell = Some (el # els) \<longrightarrow>
            buildEditCellRequests bodyContent tableIndex r c newText =
              Inr [InsertText (case el_startIndex el of None \<Rightarrow> 0 | Some s \<Rightarrow> s) None newText]))
    \<and> (cell_content cell = None \<or> cell_content cell = Some [] \<longrightarrow>
         buildEditCellRequests bodyContent tableIndex r c newText =
           Inl (UserError ''Cell has no content elements.''))"
proof -
  let ?rs = "qualifyingRanges cell"
  have eq: "getCellTextRanges cell = ?rs" by (rule getCellTextRanges_qualifying)
  have nonempty: "?rs \<noteq> [] \<longrightarrow>
         buildEditCellRequests bodyContent tableIndex r c newText =
           Inr (map (\<lambda>x. DeleteContentRange (startIndex x) (endIndex x) None)
                  (sortRangesDescending ?rs)
                @ (if newText \<noteq> [] then [InsertText (Min (startIndex ` set ?rs)) None newText]
                   else []))
         \<and> sorted_wrt (\<lambda>a b. startIndex a \<ge> startIndex b) (sortRangesDescending ?rs)
         \<and> mset (sortRangesDescending ?rs) = mset ?rs
         \<and> (\<forall>k. filter (\<lambda>x. startIndex x = k) (sortRangesDescending ?rs)
                = filter (\<lambda>x. startIndex x = k) ?rs)"
  proof
    assume ne: "?rs \<noteq> []"
    then obtain x xs where rs: "?rs = x # xs" by (cases ?rs) auto
    have "buildEditCellRequests bodyContent tableIndex r c newText =
           Inr (map (\<lambda>x. DeleteContentRange (startIndex x) (endIndex x) None)
                  (sortRangesDescending ?rs)
                @ (if newText \<noteq> [] then [InsertText (Min (startIndex ` set ?rs)) None newText]
                   else []))"
      using assms eq rs lowestStartIndex_Min [of x xs]
      by (simp add: buildEditCellRequests_def deleteRequests_def tabIdField_def)
    then show "buildEditCellRequests bodyContent tableIndex r c newText =
           Inr (map (\<lambda>x. DeleteContentRange (startIndex x) (endIndex x) None)
                  (sortRangesDescending ?rs)
                @ (if newText \<noteq> [] then [InsertText (Min (startIndex ` set ?rs)) None newText]
                   else []))
         \<and> sorted_wrt (\<lambda>a b. startIndex a \<ge> startIndex b) (sortRangesDescending ?rs)
         \<and> mset (sortRangesDescending ?rs) = mset ?rs
         \<and> (\<forall>k. filter (\<lambda>x. startIndex x = k) (sortRangesDescending ?rs)
                = filter (\<lambda>x. startIndex x = k) ?rs)"
      using sortRangesDescending_sorted [of ?rs] sortRangesDescending_mset [of ?rs]
        sortRangesDescending_stable [of _ ?rs]
      by simp
  qed
  have first: "?rs = [] \<and> newText \<noteq> [] \<longrightarrow>
         (\<forall>el els. cell_content cell = Some (el # els) \<longrightarrow>
            buildEditCellRequests bodyContent tableIndex r c newText =
              Inr [InsertText (case el_startIndex el of None \<Rightarrow> 0 | Some s \<Rightarrow> s) None newText])"
    using assms eq by (simp add: buildEditCellRequests_def getCellInsertionPoint_def)
  have none: "cell_content cell = None \<or> cell_content cell = Some [] \<longrightarrow>
         buildEditCellRequests bodyContent tableIndex r c newText =
           Inl (UserError ''Cell has no content elements.'')"
  proof
    assume c: "cell_content cell = None \<or> cell_content cell = Some []"
    then have "?rs = []" by (auto simp: qualifyingRanges_def cellContents_def)
    with assms eq c show "buildEditCellRequests bodyContent tableIndex r c newText =
           Inl (UserError ''Cell has no content elements.'')"
      by (auto simp: buildEditCellRequests_def getCellInsertionPoint_def)
  qed
  from eq nonempty first none show ?thesis by (intro conjI)
qed

text \<open>
  The cell \<open>[text paragraph][image-only paragraph]\<close> of the first sample document: the text
  paragraph is deleted and replaced, the image paragraph at 8..10 is not touched. In the
  second sample document: the cell whose first paragraph holds only an image gets one
  insert at the start of that first paragraph (20, not 22); the cells without a content
  element raise the error; the one-letter paragraph is replaced; of the two text
  paragraphs, the later is deleted first and the insert goes to the start of the earlier.
\<close>

theorem buildEditCellRequests_requests_witness:
  "getTableElement sampleBody 0 = Inr sampleTableElement
   \<and> el_table sampleTableElement = Some sampleTable
   \<and> getCellElement sampleTable 0 0 = Inr textImageCell
   \<and> buildEditCellRequests sampleBody 0 0 0 ''New''
       = Inr [DeleteContentRange 5 7 None, InsertText 5 None ''New'']
   \<and> getTableElement variedBody 0 = Inr variedTableElement
   \<and> el_table variedTableElement = Some variedTable
   \<and> getCellElement variedTable 0 0 = Inr imageOnlyCell
   \<and> buildEditCellRequests variedBody 0 0 0 ''New'' = Inr [InsertText 20 None ''New'']
   \<and> getCellElement variedTable 0 1 = Inr emptyContentCell
   \<and> buildEditCellRequests variedBody 0 0 1 ''New'' = Inl (UserError ''Cell has no content elements.'')
   \<and> getCellElement variedTable 0 2 = Inr noContentCell
   \<and> buildEditCellRequests variedBody 0 0 2 ''New'' = Inl (UserError ''Cell has no content elements.'')
   \<and> getCellElement variedTable 0 3 = Inr oneLetterCell
   \<and> buildEditCellRequests variedBody 0 0 3 ''New''
       = Inr [DeleteContentRange 24 25 None, InsertText 24 None ''New'']
   \<and> getCellElement variedTable 0 4 = Inr twoParagraphCell
   \<and> buildEditCellRequests variedBody 0 0 4 ''New''
       = Inr [DeleteContentRange 30 32 None, DeleteContentRange 27 29 None,
              InsertText 27 None ''New'']"
proof -
  have t: "el_table sampleTableElement = Some sampleTable"
    by (simp add: sampleTableElement_def)
  have v: "el_table variedTableElement = Some variedTable"
    by (simp add: variedTableElement_def)
  have c0: "buildEditCellRequests sampleBody 0 0 0 ''New''
       = Inr [DeleteContentRange 5 7 None, InsertText 5 None ''New'']"
    using buildEditCellRequests_requests [OF sampleBody_table t sampleTable_cell00, of "''New''"]
    by (simp add: sample_qualifyingRanges sortRangesDescending_def)
  have c1: "buildEditCellRequests variedBody 0 0 0 ''New'' = Inr [InsertText 20 None ''New'']"
    using buildEditCellRequests_requests [OF variedBody_table v variedTable_cells(1), of "''New''"]
    by (simp add: sample_qualifyingRanges sample_cell_content)
  have c2: "buildEditCellRequests variedBody 0 0 1 ''New''
       = Inl (UserError ''Cell has no content elements.'')"
    using buildEditCellRequests_requests [OF variedBody_table v variedTable_cells(2), of "''New''"]
    by (simp add: sample_cell_content)
  have c3: "buildEditCellRequests variedBody 0 0 2 ''New''
       = Inl (UserError ''Cell has no content elements.'')"
    using buildEditCellRequests_requests [OF variedBody_table v variedTable_cells(3), of "''New''"]
    by (simp add: sample_cell_content)
  have c4: "buildEditCellRequests variedBody 0 0 3 ''New''
       = Inr [DeleteContentRange 24 25 None, InsertText 24 None ''New'']"
    using buildEditCellRequests_requests [OF variedBody_table v variedTable_cells(4), of "''New''"]
    by (simp add: sample_qualifyingRanges sortRangesDescending_def)
  have c5: "buildEditCellRequests variedBody 0 0 4 ''New''
       = Inr [DeleteContentRange 30 32 None, DeleteContentRange 27 29 None,
              InsertText 27 None ''New'']"
    using buildEditCellRequests_requests [OF variedBody_table v variedTable_cells(5), of "''New''"]
    by (simp add: sample_qualifyingRanges sortRangesDescending_def)
  from sampleBody_table t sampleTable_cell00 c0 variedBody_table v variedTable_cells c1 c2 c3 c4 c5
  show ?thesis by (intro conjI)
qed

text \<open>
  The claim as stated fails for an empty replacement text: the cell has a text-bearing
  paragraph, and the request list ends with the delete, with no insert.
\<close>

theorem buildEditCellRequests_empty_text_counterexample:
  "buildEditCellRequests sampleBody 0 0 0 [] = Inr [DeleteContentRange 5 7 None]"
  using sampleBody_table sampleTable_cell00 textImageCell_ranges
  by (simp add: buildEditCellRequests_def sampleTableElement_def deleteRequests_def
      sortRangesDescending_def tabIdField_def)

subsection \<open>Batch cell edits\<close>

lemma cellGroupsLoop_Inr:
  "list_all2 (\<lambda>edit g. cellEditGroup tbl tabId edit = Inr g) edits groups \<Longrightarrow>
   cellGroupsLoop tbl tabId edits acc = Inr (acc @ groups)"
proof (induction edits arbitrary: groups acc)
  case Nil
  then show ?case by simp
next
  case (Cons edit edits)
  then obtain g gs where gs: "groups = g # gs" "cellEditGroup tbl tabId edit = Inr g"
    "list_all2 (\<lambda>edit g. cellEditGroup tbl tabId edit = Inr g) edits gs"
    by (auto simp: list_all2_Cons1)
  from Cons.IH [OF gs(3), of "acc @ [g]"] gs show ?case by simp
qed

lemma cellEditGroup_shape:
  assumes "cellEditGroup tbl tabId edit = Inr g"
  shows "\<exists>cell. getCellElement tbl (edit_row edit) (edit_col edit) = Inr cell
     \<and> requests g =
         deleteRequests tabId (sortRangesDescending (qualifyingRanges cell))
         @ (if edit_text edit \<noteq> []
            then [InsertText (sortIndex g) (tabIdField tabId) (edit_text edit)] else [])
     \<and> (qualifyingRanges cell \<noteq> [] \<longrightarrow>
          sortIndex g = Min (startIndex ` set (qualifyingRanges cell)))
     \<and> (qualifyingRanges cell = [] \<longrightarrow> getCellInsertionPoint cell = Inr (sortIndex g))"
proof -
  from assms obtain cell where cell: "getCellElement tbl (edit_row edit) (edit_col edit) = Inr cell"
    by (auto simp: cellEditGroup_def split: sum.splits)
  let ?rs = "qualifyingRanges cell"
  have eq: "getCellTextRanges cell = ?rs" by (rule getCellTextRanges_qualifying)
  show ?thesis
  proof (cases ?rs)
    case Nil
    with assms cell eq show ?thesis
      by (auto simp: cellEditGroup_def deleteRequests_def sortRangesDescending_def
          split: sum.splits)
  next
    case (Cons x xs)
    with assms cell eq lowestStartIndex_Min [of x xs] show ?thesis
      by (auto simp: cellEditGroup_def)
  qed
qed

lemma sorted_wrt_strict:
  "sorted_wrt (\<lambda>a b. f a \<ge> (f b :: int)) xs \<Longrightarrow> distinct (map f xs) \<Longrightarrow>
   sorted_wrt (\<lambda>a b. f a > f b) xs"
proof (induction xs)
  case Nil
  then show ?case by simp
next
  case (Cons x xs)
  have "f x > f y" if "y \<in> set xs" for y
  proof -
    from Cons.prems that have "f x \<ge> f y" "f x \<noteq> f y" by auto
    then show ?thesis by simp
  qed
  with Cons show ?case by simp
qed

lemma sortGroupsDescending_sorted:
  "sorted_wrt (\<lambda>a b. sortIndex a \<ge> sortIndex b) (sortGroupsDescending gs)"
proof -
  have "sorted (map (\<lambda>g. - sortIndex g) (sort_key (\<lambda>g. - sortIndex g) gs))"
    by (rule sorted_sort_key)
  then show ?thesis by (simp add: sortGroupsDescending_def sorted_map)
qed

lemma sortGroupsDescending_mset: "mset (sortGroupsDescending gs) = mset gs"
  by (simp add: sortGroupsDescending_def)

lemma sortGroupsDescending_stable:
  "filter (\<lambda>g. sortIndex g = k) (sortGroupsDescending gs) = filter (\<lambda>g. sortIndex g = k) gs"
  using sort_key_stable [of "\<lambda>g. - sortIndex g" "- k" gs]
  by (simp add: sortGroupsDescending_def)

lemma sortGroupsDescending_strict:
  assumes "distinct (map sortIndex gs)"
  shows "sorted_wrt (\<lambda>a b. sortIndex a > sortIndex b) (sortGroupsDescending gs)"
proof -
  have "mset (map sortIndex (sortGroupsDescending gs)) = mset (map sortIndex gs)"
    using sortGroupsDescending_mset [of gs] by (metis mset_map)
  then have "distinct (map sortIndex (sortGroupsDescending gs))"
    using assms by (metis mset_eq_imp_distinct_iff)
  then show ?thesis
    using sortGroupsDescending_sorted [of gs] by (rule sorted_wrt_strict [rotated])
qed

text \<open>
  Claim C2, as amended. When every edit yields a group, each group is computed from its own
  edit and the table alone: its requests are the deletes of the cell's qualifying ranges
  followed by the insert (for a non-empty text) at the group's sort index, which is the
  cell's insertion offset. The returned list is the concatenation of the whole groups,
  stably sorted by descending sort index: groups of equal sort index keep the order of the
  edits, and the order is strictly descending when the sort indices are pairwise distinct.
\<close>

theorem buildBatchEditCellRequests_groups:
  assumes "getTableElement bodyContent tableIndex = Inr tableEl"
    and "el_table tableEl = Some tbl"
    and "list_all2 (\<lambda>edit g. cellEditGroup tbl tabId edit = Inr g) edits groups"
  shows "buildBatchEditCellRequests bodyContent tableIndex edits tabId =
           Inr (concat (map requests (sortGroupsDescending groups)))
    \<and> mset (sortGroupsDescending groups) = mset groups
    \<and> sorted_wrt (\<lambda>a b. sortIndex a \<ge> sortIndex b) (sortGroupsDescending groups)
    \<and> (distinct (map sortIndex groups) \<longrightarrow>
         sorted_wrt (\<lambda>a b. sortIndex a > sortIndex b) (sortGroupsDescending groups))
    \<and> (\<forall>k. filter (\<lambda>g. sortIndex g = k) (sortGroupsDescending groups)
           = filter (\<lambda>g. sortIndex g = k) groups)
    \<and> list_all2 (\<lambda>edit g. \<exists>cell.
           getCellElement tbl (edit_row edit) (edit_col edit) = Inr cell
           \<and> requests g =
               deleteRequests tabId (sortRangesDescending (qualifyingRanges cell))
               @ (if edit_text edit \<noteq> []
                  then [InsertText (sortIndex g) (tabIdField tabId) (edit_text edit)] else [])
           \<and> (qualifyingRanges cell \<noteq> [] \<longrightarrow>
                sortIndex g = Min (startIndex ` set (qualifyingRanges cell)))
           \<and> (qualifyingRanges cell = [] \<longrightarrow> getCellInsertionPoint cell = Inr (sortIndex g)))
         edits groups"
proof -
  have loop: "cellGroupsLoop tbl tabId edits [] = Inr groups"
    using cellGroupsLoop_Inr [OF assms(3), of "[]"] by simp
  have result: "buildBatchEditCellRequests bodyContent tableIndex edits tabId =
           Inr (concat (map requests (sortGroupsDescending groups)))"
    using assms(1,2) loop by (simp add: buildBatchEditCellRequests_def)
  have shape: "list_all2 (\<lambda>edit g. \<exists>cell.
           getCellElement tbl (edit_row edit) (edit_col edit) = Inr cell
           \<and> requests g =
               deleteRequests tabId (sortRangesDescending (qualifyingRanges cell))
               @ (if edit_text edit \<noteq> []
                  then [InsertText (sortIndex g) (tabIdField tabId) (edit_text edit)] else [])
           \<and> (qualifyingRanges cell \<noteq> [] \<longrightarrow>
                sortIndex g = Min (startIndex ` set (qualifyingRanges cell)))
           \<and> (qualifyingRanges cell = [] \<longrightarrow> getCellInsertionPoint cell = Inr (sortIndex g)))
         edits groups"
    using assms(3) by (rule list_all2_mono) (rule cellEditGroup_shape)
  show ?thesis
    using result shape sortGroupsDescending_mset [of groups] sortGroupsDescending_sorted [of groups]
      sortGroupsDescending_strict [of groups] sortGroupsDescending_stable [of _ groups]
    by blast
qed

lemma textImageCell_group:
  "cellEditGroup sampleTable None \<lparr>edit_row = 0, edit_col = 0, edit_text = t\<rparr> =
     Inr \<lparr>sortIndex = 5,
          requests = DeleteContentRange 5 7 None # (if t \<noteq> [] then [InsertText 5 None t] else [])\<rparr>"
  using sampleTable_cell00 textImageCell_ranges
  by (simp add: cellEditGroup_def deleteRequests_def sortRangesDescending_def tabIdField_def
      lowestStartIndex_def)

lemma blankCell_group:
  "cellEditGroup sampleTable None \<lparr>edit_row = 0, edit_col = 1, edit_text = t\<rparr> =
     Inr \<lparr>sortIndex = 11, requests = (if t \<noteq> [] then [InsertText 11 None t] else [])\<rparr>"
  using sampleTable_cell01 blankCell_ranges
  by (simp add: cellEditGroup_def getCellInsertionPoint_def blankCell_def paragraphAt_def
      tabIdField_def)

text \<open>
  Edits of the cells (0,0) and (0,1) of the sample document, given in ascending order: the
  group of the later cell (sort index 11) comes whole before that of the earlier (5).
\<close>

theorem buildBatchEditCellRequests_groups_witness:
  "getTableElement sampleBody 0 = Inr sampleTableElement
   \<and> el_table sampleTableElement = Some sampleTable
   \<and> buildBatchEditCellRequests sampleBody 0
       [\<lparr>edit_row = 0, edit_col = 0, edit_text = ''A''\<rparr>,
        \<lparr>edit_row = 0, edit_col = 1, edit_text = ''B''\<rparr>] None
     = Inr [InsertText 11 None ''B'', DeleteContentRange 5 7 None, InsertText 5 None ''A'']"
proof -
  let ?gA = "\<lparr>sortIndex = 5, requests = [DeleteContentRange 5 7 None, InsertText 5 None ''A'']\<rparr>"
  let ?gB = "\<lparr>sortIndex = 11, requests = [InsertText 11 None ''B'']\<rparr>"
  have t: "el_table sampleTableElement = Some sampleTable"
    by (simp add: sampleTableElement_def)
  have groups: "list_all2 (\<lambda>edit g. cellEditGroup sampleTable None edit = Inr g)
      [\<lparr>edit_row = 0, edit_col = 0, edit_text = ''A''\<rparr>,
       \<lparr>edit_row = 0, edit_col = 1, edit_text = ''B''\<rparr>] [?gA, ?gB]"
    by (simp add: textImageCell_group blankCell_group)
  show ?thesis
    using buildBatchEditCellRequests_groups [OF sampleBody_table t groups] sampleBody_table t
    by (simp add: sortGroupsDescending_def)
qed

text \<open>
  The claim as stated fails when two edits have the same insertion offset, as two edits of
  one cell do: both groups have sort index 5, so the order of the groups is descending but
  not strictly descending.
\<close>

theorem buildBatchEditCellRequests_equal_index_counterexample:
  "cellGroupsLoop sampleTable None
       [\<lparr>edit_row = 0, edit_col = 0, edit_text = ''A''\<rparr>,
        \<lparr>edit_row = 0, edit_col = 0, edit_text = ''B''\<rparr>] []
     = Inr [\<lparr>sortIndex = 5, requests = [DeleteContentRange 5 7 None, InsertText 5 None ''A'']\<rparr>,
            \<lparr>sortIndex = 5, requests = [DeleteContentRange 5 7 None, InsertText 5 None ''B'']\<rparr>]
   \<and> buildBatchEditCellRequests sampleBody 0
       [\<lparr>edit_row = 0, edit_col = 0, edit_text = ''A''\<rparr>,
        \<lparr>edit_row = 0, edit_col = 0, edit_text = ''B''\<rparr>] None
     = Inr [DeleteContentRange 5 7 None, InsertText 5 None ''A'',
            DeleteContentRange 5 7 None, InsertText 5 None ''B'']"
  using sampleBody_table
  by (simp add: buildBatchEditCellRequests_def sampleTableElement_def textImageCell_group
      sortGroupsDescending_def)

subsection \<open>Undo and redo stacks\<close>


lemma enforceMaxSnapshots_drop:
  "enforceMaxSnapshots undo = drop (length undo - MAX_SNAPSHOTS) undo"
proof (induction undo rule: enforceMaxSnapshots.induct)
  case (1 undo)
  show ?case
  proof (cases "length undo > MAX_SNAPSHOTS")
    case True
    then obtain x xs where u: "undo = x # xs" by (cases undo) auto
    from True u have k: "Suc (length xs) - MAX_SNAPSHOTS = Suc (length xs - MAX_SNAPSHOTS)"
      by simp
    have ih: "enforceMaxSnapshots (tl undo) = drop (length (tl undo) - MAX_SNAPSHOTS) (tl undo)"
      using 1 True by simp
    have "enforceMaxSnapshots undo = enforceMaxSnapshots (tl undo)"
      using True by (subst enforceMaxSnapshots.simps) simp
    also have "\<dots> = drop (length xs - MAX_SNAPSHOTS) xs"
      using ih u by simp
    also have "\<dots> = drop (length undo - MAX_SNAPSHOTS) undo"
      using u k by simp
    finally show ?thesis .
  next
    case False
    then show ?thesis by (simp add: enforceMaxSnapshots.simps [of undo])
  qed
qed

lemma drop_excess_twice:
  "drop (length (drop (length xs - m) xs @ ys) - m) (drop (length xs - m) xs @ ys)
     = drop (length (xs @ ys) - m) (xs @ ys)"
proof -
  let ?a = "length xs - m"
  have app: "drop ?a xs @ ys = drop ?a (xs @ ys)" by simp
  have len: "?a + (length (drop ?a xs @ ys) - m) = length (xs @ ys) - m" by simp
  have "drop (length (drop ?a xs @ ys) - m) (drop ?a (xs @ ys))
          = drop (?a + (length (drop ?a xs @ ys) - m)) (xs @ ys)"
    by (simp only: drop_drop add.commute)
  then show ?thesis by (simp only: app [symmetric] len)
qed

lemma enforceMaxSnapshots_append:
  "enforceMaxSnapshots (enforceMaxSnapshots xs @ ys) = enforceMaxSnapshots (xs @ ys)"
  by (simp only: enforceMaxSnapshots_drop drop_excess_twice)

lemma getStack_fst:
  "fst (getStack d st) = (case st d of None \<Rightarrow> \<lparr>undoStack = [], redoStack = []\<rparr> | Some s \<Rightarrow> s)"
  by (simp add: getStack_def split: option.splits)

lemma getStack_idem: "fst (getStack d' (snd (getStack d st))) = fst (getStack d' st)"
  by (auto simp: getStack_def split: option.splits)

lemma getStack_update:
  "fst (getStack d' ((snd (getStack d st))(d \<mapsto> s))) = (if d' = d then s else fst (getStack d' st))"
  by (auto simp: getStack_def split: option.splits)

lemma createSnapshot_stack:
  assumes "fetched = Inr doc"
  shows "createSnapshot fetched newId now d label st =
          (Inr (captureSnapshot doc newId now d label),
           (snd (getStack d st))(d \<mapsto>
              \<lparr>undoStack = enforceMaxSnapshots (undoStack (fst (getStack d st)) @ [captureSnapshot doc newId now d label]),
               redoStack = []\<rparr>))"
  using assms by (simp add: createSnapshot_def Let_def split: prod.splits)

lemma createSnapshots_undo:
  assumes "list_all fetchedOk calls" "calls \<noteq> []"
  shows "fst (getStack d (createSnapshots calls d st)) =
          \<lparr>undoStack = enforceMaxSnapshots (undoStack (fst (getStack d st)) @ map (callSnapshot d) calls),
           redoStack = []\<rparr>"
  using assms
proof (induction calls arbitrary: st)
  case Nil
  then show ?case by simp
next
  case (Cons c cs)
  from Cons.prems obtain doc where doc: "call_fetched c = Inr doc"
    by (auto simp: fetchedOk_def split: sum.splits)
  let ?s = "captureSnapshot doc (call_newId c) (call_now c) d (call_label c)"
  let ?u = "undoStack (fst (getStack d st))"
  let ?st1 = "snd (createSnapshot (call_fetched c) (call_newId c) (call_now c) d (call_label c) st)"
  have s: "callSnapshot d c = ?s" using doc by (simp add: callSnapshot_def captureSnapshot_def)
  have st1: "fst (getStack d ?st1) = \<lparr>undoStack = enforceMaxSnapshots (?u @ [?s]), redoStack = []\<rparr>"
    using createSnapshot_stack [OF doc] by (simp add: getStack_update)
  show ?case
  proof (cases "cs = []")
    case True
    with st1 s show ?thesis by simp
  next
    case False
    with Cons have "fst (getStack d (createSnapshots cs d ?st1)) =
          \<lparr>undoStack = enforceMaxSnapshots (undoStack (fst (getStack d ?st1)) @ map (callSnapshot d) cs),
           redoStack = []\<rparr>" by simp
    moreover have "enforceMaxSnapshots (enforceMaxSnapshots (?u @ [?s]) @ map (callSnapshot d) cs)
        = enforceMaxSnapshots (?u @ [?s] @ map (callSnapshot d) cs)"
      using enforceMaxSnapshots_append [of "?u @ [?s]" "map (callSnapshot d) cs"] by simp
    ultimately show ?thesis using st1 s by simp
  qed
qed

lemma undoLastChange_empty:
  assumes "undoStack (fst (getStack d st)) = []"
  shows "undoLastChange fetched newId now restore d st =
          (Inl (UserError
             ''No snapshots available to undo. Create a snapshot before making changes.''),
           snd (getStack d st))"
proof (cases "getStack d st")
  case (Pair stack stacks1)
  with assms show ?thesis by (simp add: undoLastChange_def)
qed

lemma undoLastChange_moves:
  assumes "undoStack (fst (getStack d st)) \<noteq> []" and "fetched = Inr doc"
  shows "snd (undoLastChange fetched newId now restore d st) =
          (snd (getStack d st))(d \<mapsto>
             \<lparr>undoStack = butlast (undoStack (fst (getStack d st))),
              redoStack = redoStack (fst (getStack d st))
                @ [captureSnapshot doc newId now d ''pre-undo state'']\<rparr>)"
    and "restore (last (undoStack (fst (getStack d st)))) = None \<Longrightarrow>
         fst (undoLastChange fetched newId now restore d st) =
           Inr (last (undoStack (fst (getStack d st))),
                length (undoStack (fst (getStack d st))) - 1)"
proof -
  obtain stack stacks1 where g: "getStack d st = (stack, stacks1)" by (cases "getStack d st")
  with assms show "snd (undoLastChange fetched newId now restore d st) =
          (snd (getStack d st))(d \<mapsto>
             \<lparr>undoStack = butlast (undoStack (fst (getStack d st))),
              redoStack = redoStack (fst (getStack d st))
                @ [captureSnapshot doc newId now d ''pre-undo state'']\<rparr>)"
    by (simp add: undoLastChange_def Let_def split: option.splits)
  from assms g show "restore (last (undoStack (fst (getStack d st)))) = None \<Longrightarrow>
         fst (undoLastChange fetched newId now restore d st) =
           Inr (last (undoStack (fst (getStack d st))),
                length (undoStack (fst (getStack d st))) - 1)"
    by (simp add: undoLastChange_def Let_def)
qed

lemma listSnapshots_eq:
  "listSnapshots d st =
     (map (snapshotEntry Undo) (undoStack (fst (getStack d st)))
        @ map (snapshotEntry Redo) (redoStack (fst (getStack d st))),
      snd (getStack d st))"
  by (simp add: listSnapshots_def split: prod.splits)

lemma createSnapshot_last:
  "last (enforceMaxSnapshots (xs @ [s])) = s"
  by (simp add: enforceMaxSnapshots_drop MAX_SNAPSHOTS_def)

lemma eleven_creates:
  assumes "list_all fetchedOk calls" and "length calls = 11"
  shows "fst (getStack d (createSnapshots calls d st)) =
           \<lparr>undoStack = map (callSnapshot d) (tl calls), redoStack = []\<rparr>"
proof -
  from assms(2) have ne: "calls \<noteq> []" by auto
  let ?u = "undoStack (fst (getStack d st))"
  have "enforceMaxSnapshots (?u @ map (callSnapshot d) calls) = map (callSnapshot d) (tl calls)"
    using assms(2) by (simp add: enforceMaxSnapshots_drop MAX_SNAPSHOTS_def drop_map drop_Suc)
  then show ?thesis using createSnapshots_undo [OF assms(1) ne, of d st] by simp
qed

text \<open>
  Claim C4. For a read that succeeds, \<open>createSnapshot\<close> pushes the captured state on
  the undo stack (it is the newest entry, and entries beyond the newest ten are dropped
  from the old end) and leaves the redo stack empty whatever it held. The captured state
  is the body content and the inline objects of the document that was read (an empty body
  and no inline objects where the document has none), under the generated id, the document
  id, the current time and the label. \<open>undoLastChange\<close>
  on an empty undo stack fails with the empty-history \<open>UserError\<close> and changes no stack;
  otherwise it pops exactly the newest undo entry, which is the one restored, and pushes
  the captured live state on the redo stack. After eleven creates on a document its undo
  stack holds the last ten snapshots only, so \<open>listSnapshots\<close> does not return the
  first one. \<open>listSnapshots\<close> changes the stacks of no document.
\<close>

theorem snapshot_stack_discipline:
  "(fetched = Inr doc \<longrightarrow>
      fst (createSnapshot fetched newId now d label st)
        = Inr (\<lparr>snap_id = newId, snap_documentId = d, snap_timestamp = now,
             snap_label = label,
             snap_body = (case doc_bodyContent doc of None \<Rightarrow> [] | Some b \<Rightarrow> b),
             snap_inlineObjects =
               (case doc_inlineObjects doc of None \<Rightarrow> Map.empty | Some m \<Rightarrow> m)\<rparr>)
      \<and> undoStack (fst (getStack d (snd (createSnapshot fetched newId now d label st))))
        = enforceMaxSnapshots
            (undoStack (fst (getStack d st)) @ [\<lparr>snap_id = newId, snap_documentId = d, snap_timestamp = now,
             snap_label = label,
             snap_body = (case doc_bodyContent doc of None \<Rightarrow> [] | Some b \<Rightarrow> b),
             snap_inlineObjects =
               (case doc_inlineObjects doc of None \<Rightarrow> Map.empty | Some m \<Rightarrow> m)\<rparr>])
      \<and> last (undoStack (fst (getStack d (snd (createSnapshot fetched newId now d label st)))))
        = \<lparr>snap_id = newId, snap_documentId = d, snap_timestamp = now,
             snap_label = label,
             snap_body = (case doc_bodyContent doc of None \<Rightarrow> [] | Some b \<Rightarrow> b),
             snap_inlineObjects =
               (case doc_inlineObjects doc of None \<Rightarrow> Map.empty | Some m \<Rightarrow> m)\<rparr>
      \<and> redoStack (fst (getStack d (snd (createSnapshot fetched newId now d label st)))) = [])
   \<and> enforceMaxSnapshots undo = drop (length undo - 10) undo
   \<and> (undoStack (fst (getStack d st)) = [] \<longrightarrow>
      fst (undoLastChange fetched newId now restore d st)
        = Inl (UserError
            ''No snapshots available to undo. Create a snapshot before making changes.'')
      \<and> fst (getStack d (snd (undoLastChange fetched newId now restore d st)))
        = fst (getStack d st))
   \<and> (undoStack (fst (getStack d st)) \<noteq> [] \<and> fetched = Inr doc \<longrightarrow>
      undoStack (fst (getStack d (snd (undoLastChange fetched newId now restore d st))))
        = butlast (undoStack (fst (getStack d st)))
      \<and> redoStack (fst (getStack d (snd (undoLastChange fetched newId now restore d st))))
        = redoStack (fst (getStack d st)) @ [\<lparr>snap_id = newId, snap_documentId = d, snap_timestamp = now,
             snap_label = ''pre-undo state'',
             snap_body = (case doc_bodyContent doc of None \<Rightarrow> [] | Some b \<Rightarrow> b),
             snap_inlineObjects =
               (case doc_inlineObjects doc of None \<Rightarrow> Map.empty | Some m \<Rightarrow> m)\<rparr>]
      \<and> (restore (last (undoStack (fst (getStack d st)))) = None \<longrightarrow>
           fst (undoLastChange fetched newId now restore d st)
             = Inr (last (undoStack (fst (getStack d st))),
                    length (undoStack (fst (getStack d st))) - 1)))
   \<and> (list_all fetchedOk calls \<and> length calls = 11 \<longrightarrow>
      fst (listSnapshots d (createSnapshots calls d st))
        = map (snapshotEntry Undo) (map (callSnapshot d) (tl calls))
      \<and> (snap_id (callSnapshot d (hd calls)) \<notin> set (map (snap_id \<circ> callSnapshot d) (tl calls))
           \<longrightarrow> snap_id (callSnapshot d (hd calls))
                 \<notin> set (map entry_id (fst (listSnapshots d (createSnapshots calls d st))))))
   \<and> (\<forall>d'. fst (getStack d' (snd (listSnapshots d st))) = fst (getStack d' st))"
proof -
  have create: "fst (createSnapshot fetched newId now d label st)
        = Inr (\<lparr>snap_id = newId, snap_documentId = d, snap_timestamp = now,
             snap_label = label,
             snap_body = (case doc_bodyContent doc of None \<Rightarrow> [] | Some b \<Rightarrow> b),
             snap_inlineObjects =
               (case doc_inlineObjects doc of None \<Rightarrow> Map.empty | Some m \<Rightarrow> m)\<rparr>)
      \<and> undoStack (fst (getStack d (snd (createSnapshot fetched newId now d label st))))
        = enforceMaxSnapshots
            (undoStack (fst (getStack d st)) @ [\<lparr>snap_id = newId, snap_documentId = d, snap_timestamp = now,
             snap_label = label,
             snap_body = (case doc_bodyContent doc of None \<Rightarrow> [] | Some b \<Rightarrow> b),
             snap_inlineObjects =
               (case doc_inlineObjects doc of None \<Rightarrow> Map.empty | Some m \<Rightarrow> m)\<rparr>])
      \<and> last (undoStack (fst (getStack d (snd (createSnapshot fetched newId now d label st)))))
        = \<lparr>snap_id = newId, snap_documentId = d, snap_timestamp = now,
             snap_label = label,
             snap_body = (case doc_bodyContent doc of None \<Rightarrow> [] | Some b \<Rightarrow> b),
             snap_inlineObjects =
               (case doc_inlineObjects doc of None \<Rightarrow> Map.empty | Some m \<Rightarrow> m)\<rparr>
      \<and> redoStack (fst (getStack d (snd (createSnapshot fetched newId now d label st)))) = []"
    if "fetched = Inr doc"
    using createSnapshot_stack [OF that, of newId now d label st]
    by (simp add: getStack_update createSnapshot_last captureSnapshot_def)
  have evict: "enforceMaxSnapshots undo = drop (length undo - 10) undo"
    using enforceMaxSnapshots_drop [of undo] by (simp add: MAX_SNAPSHOTS_def)
  have empty: "fst (undoLastChange fetched newId now restore d st)
        = Inl (UserError
            ''No snapshots available to undo. Create a snapshot before making changes.'')
      \<and> fst (getStack d (snd (undoLastChange fetched newId now restore d st)))
        = fst (getStack d st)"
    if "undoStack (fst (getStack d st)) = []"
    using undoLastChange_empty [OF that]
    by (simp add: getStack_idem)
  have move: "undoStack (fst (getStack d (snd (undoLastChange fetched newId now restore d st))))
        = butlast (undoStack (fst (getStack d st)))
      \<and> redoStack (fst (getStack d (snd (undoLastChange fetched newId now restore d st))))
        = redoStack (fst (getStack d st)) @ [\<lparr>snap_id = newId, snap_documentId = d, snap_timestamp = now,
             snap_label = ''pre-undo state'',
             snap_body = (case doc_bodyContent doc of None \<Rightarrow> [] | Some b \<Rightarrow> b),
             snap_inlineObjects =
               (case doc_inlineObjects doc of None \<Rightarrow> Map.empty | Some m \<Rightarrow> m)\<rparr>]
      \<and> (restore (last (undoStack (fst (getStack d st)))) = None \<longrightarrow>
           fst (undoLastChange fetched newId now restore d st)
             = Inr (last (undoStack (fst (getStack d st))),
                    length (undoStack (fst (getStack d st))) - 1))"
    if "undoStack (fst (getStack d st)) \<noteq> []" and "fetched = Inr doc"
    using undoLastChange_moves [OF that]
    by (simp add: getStack_update captureSnapshot_def)
  have eleven: "fst (listSnapshots d (createSnapshots calls d st))
        = map (snapshotEntry Undo) (map (callSnapshot d) (tl calls))
      \<and> (snap_id (callSnapshot d (hd calls)) \<notin> set (map (snap_id \<circ> callSnapshot d) (tl calls))
           \<longrightarrow> snap_id (callSnapshot d (hd calls))
                 \<notin> set (map entry_id (fst (listSnapshots d (createSnapshots calls d st)))))"
    if "list_all fetchedOk calls" and "length calls = 11"
  proof -
    have l: "fst (listSnapshots d (createSnapshots calls d st))
        = map (snapshotEntry Undo) (map (callSnapshot d) (tl calls))"
      using eleven_creates [OF that, of d st] by (simp add: listSnapshots_eq)
    have "map entry_id (map (snapshotEntry Undo) (map (callSnapshot d) (tl calls)))
            = map (snap_id \<circ> callSnapshot d) (tl calls)"
      by (simp add: snapshotEntry_def comp_def)
    with l show ?thesis by simp
  qed
  have list: "\<forall>d'. fst (getStack d' (snd (listSnapshots d st))) = fst (getStack d' st)"
    by (simp add: listSnapshots_eq getStack_idem)
  show ?thesis using create evict empty move eleven list by blast
qed

text \<open>
  On a store with one undo and one redo entry, and a document with a table and three inline
  objects: a create clears the redo stack and its entry holds the body and the inline
  objects that were read; an undo moves one entry and pushes the live state, with that body
  and those objects, on the redo stack. On the empty store: an undo fails, and of eleven creates the first,
  \<open>snap_0\<close>, is not listed.
\<close>

theorem snapshot_stack_discipline_witness:
  "redoStack (fst (getStack ''doc''
       (snd (createSnapshot (Inr sampleDocument) ''c'' 1 ''doc'' ''next'' sampleStacks)))) = []
   \<and> undoStack (fst (getStack ''doc''
       (snd (createSnapshot (Inr sampleDocument) ''c'' 1 ''doc'' ''next'' sampleStacks))))
      = [sampleSnapshot ''a'', \<lparr>snap_id = ''c'', snap_documentId = ''doc'', snap_timestamp = 1,
           snap_label = ''next'',
           snap_body = sampleBody, snap_inlineObjects = sampleInlineObjects\<rparr>]
   \<and> fst (undoLastChange (Inr sampleDocument) ''c'' 1 (\<lambda>s. None) ''doc'' sampleStacks)
      = Inr (sampleSnapshot ''a'', 0)
   \<and> length (snap_body (last (undoStack (fst (getStack ''doc''
       (snd (createSnapshot (Inr sampleDocument) ''c'' 1 ''doc'' ''next'' sampleStacks))))))) = 3
   \<and> snap_inlineObjects (last (redoStack (fst (getStack ''doc''
       (snd (undoLastChange (Inr sampleDocument) ''c'' 1 (\<lambda>s. None) ''doc'' sampleStacks))))))
       ''img1''
      = Some \<lparr>contentUri = Some ''u1'', sourceUri = None, sizeWidth = None, sizeHeight = None\<rparr>
   \<and> undoStack (fst (getStack ''doc''
       (snd (undoLastChange (Inr sampleDocument) ''c'' 1 (\<lambda>s. None) ''doc'' sampleStacks)))) = []
   \<and> redoStack (fst (getStack ''doc''
       (snd (undoLastChange (Inr sampleDocument) ''c'' 1 (\<lambda>s. None) ''doc'' sampleStacks))))
      = [sampleSnapshot ''b'', \<lparr>snap_id = ''c'', snap_documentId = ''doc'', snap_timestamp = 1,
           snap_label = ''pre-undo state'',
           snap_body = sampleBody, snap_inlineObjects = sampleInlineObjects\<rparr>]
   \<and> fst (undoLastChange (Inr sampleDocument) ''c'' 1 (\<lambda>s. None) ''doc'' Map.empty)
      = Inl (UserError
          ''No snapshots available to undo. Create a snapshot before making changes.'')
   \<and> map entry_id
        (fst (listSnapshots ''doc'' (createSnapshots (map sampleCall [0..<11]) ''doc'' Map.empty)))
      = [''snap_1'', ''snap_2'', ''snap_3'', ''snap_4'', ''snap_5'', ''snap_6'', ''snap_7'',
         ''snap_8'', ''snap_9'', ''snap_10'']"
proof -
  have stack: "fst (getStack ''doc'' sampleStacks)
      = \<lparr>undoStack = [sampleSnapshot ''a''], redoStack = [sampleSnapshot ''b'']\<rparr>"
    by (simp add: getStack_def sampleStacks_def)
  have none: "fst (getStack ''doc'' Map.empty) = \<lparr>undoStack = [], redoStack = []\<rparr>"
    by (simp add: getStack_def)
  have upt: "[0..<11] = [0, 1, 2, 3, 4, 5, 6, 7, 8, 9, 10::nat]"
    by (simp add: upt_rec)
  have calls: "list_all fetchedOk (map sampleCall [0..<11]) \<and> length (map sampleCall [0..<11]) = 11"
    by (simp add: list_all_iff fetchedOk_def sampleCall_def)
  have ids: "map (\<lambda>n. ''snap_'' @ show_nat n) [1, 2, 3, 4, 5, 6, 7, 8, 9, 10]
      = [''snap_1'', ''snap_2'', ''snap_3'', ''snap_4'', ''snap_5'', ''snap_6'', ''snap_7'',
         ''snap_8'', ''snap_9'', ''snap_10'']"
    by (simp add: show_nat.simps digit_char_def)
  have entries: "map entry_id (map (snapshotEntry Undo) (map (callSnapshot ''doc'')
        (tl (map sampleCall [0..<11]))))
      = map (\<lambda>n. ''snap_'' @ show_nat n) [1, 2, 3, 4, 5, 6, 7, 8, 9, 10]"
    unfolding upt
    by (simp add: snapshotEntry_def callSnapshot_def sampleCall_def)
  note on_sample = snapshot_stack_discipline
    [of "Inr sampleDocument" sampleDocument "''c''" 1 "''doc''" "''next''" sampleStacks "[]"
        "\<lambda>s. None" "[]"]
  note on_empty = snapshot_stack_discipline
    [of "Inr sampleDocument" sampleDocument "''c''" 1 "''doc''" "''next''" Map.empty "[]"
        "\<lambda>s. None" "map sampleCall [0..<11]"]
  have a: "redoStack (fst (getStack ''doc''
       (snd (createSnapshot (Inr sampleDocument) ''c'' 1 ''doc'' ''next'' sampleStacks)))) = []
   \<and> undoStack (fst (getStack ''doc''
       (snd (createSnapshot (Inr sampleDocument) ''c'' 1 ''doc'' ''next'' sampleStacks))))
      = [sampleSnapshot ''a'', \<lparr>snap_id = ''c'', snap_documentId = ''doc'', snap_timestamp = 1,
           snap_label = ''next'',
           snap_body = sampleBody, snap_inlineObjects = sampleInlineObjects\<rparr>]"
    using on_sample stack
    by (simp add: enforceMaxSnapshots.simps MAX_SNAPSHOTS_def sampleDocument_def)
  have b: "fst (undoLastChange (Inr sampleDocument) ''c'' 1 (\<lambda>s. None) ''doc'' sampleStacks)
      = Inr (sampleSnapshot ''a'', 0)
   \<and> undoStack (fst (getStack ''doc''
       (snd (undoLastChange (Inr sampleDocument) ''c'' 1 (\<lambda>s. None) ''doc'' sampleStacks)))) = []
   \<and> redoStack (fst (getStack ''doc''
       (snd (undoLastChange (Inr sampleDocument) ''c'' 1 (\<lambda>s. None) ''doc'' sampleStacks))))
      = [sampleSnapshot ''b'', \<lparr>snap_id = ''c'', snap_documentId = ''doc'', snap_timestamp = 1,
           snap_label = ''pre-undo state'',
           snap_body = sampleBody, snap_inlineObjects = sampleInlineObjects\<rparr>]"
    using on_sample stack by (simp add: sampleDocument_def)
  have c: "fst (undoLastChange (Inr sampleDocument) ''c'' 1 (\<lambda>s. None) ''doc'' Map.empty)
      = Inl (UserError
          ''No snapshots available to undo. Create a snapshot before making changes.'')"
    using on_empty none by simp
  have d: "map entry_id
        (fst (listSnapshots ''doc'' (createSnapshots (map sampleCall [0..<11]) ''doc'' Map.empty)))
      = [''snap_1'', ''snap_2'', ''snap_3'', ''snap_4'', ''snap_5'', ''snap_6'', ''snap_7'',
         ''snap_8'', ''snap_9'', ''snap_10'']"
    using on_empty calls entries ids by simp
  have e: "length (snap_body (last (undoStack (fst (getStack ''doc''
       (snd (createSnapshot (Inr sampleDocument) ''c'' 1 ''doc'' ''next'' sampleStacks))))))) = 3
   \<and> snap_inlineObjects (last (redoStack (fst (getStack ''doc''
       (snd (undoLastChange (Inr sampleDocument) ''c'' 1 (\<lambda>s. None) ''doc'' sampleStacks))))))
       ''img1''
      = Some \<lparr>contentUri = Some ''u1'', sourceUri = None, sizeWidth = None, sizeHeight = None\<rparr>"
    using a b by (simp add: sampleBody_def sampleInlineObjects_def)
  show ?thesis using a b c d e by simp
qed

subsection \<open>Offsets of the blocks of a paragraph batch\<close>

lemma paragraphLoop_offset:
  "pl_offset (paragraphLoop mkStyle pds st) = blockStart (pl_offset st) pds (length pds)"
proof (induction pds arbitrary: st)
  case Nil
  then show ?case by (simp add: blockStart_def)
next
  case (Cons pd pds)
  then show ?case by (simp add: blockStart_def Let_def)
qed

lemma paragraphLoop_index:
  "paraDataWithIndex (paragraphLoop mkStyle pds st) =
     paraDataWithIndex st
     @ map (\<lambda>i. \<lparr>ip_content = pds ! i, ip_startIndex = blockStart (pl_offset st) pds i\<rparr>)
         [0..<length pds]"
proof (induction pds arbitrary: st)
  case Nil
  then show ?case by simp
next
  case (Cons pd pds)
  let ?s = "pl_offset st"
  let ?e = "?s + int (length (paragraphText pd)) + 1"
  have shift: "map (\<lambda>i. \<lparr>ip_content = (pd # pds) ! i, ip_startIndex = blockStart ?s (pd # pds) i\<rparr>)
                 [0..<length (pd # pds)]
      = \<lparr>ip_content = pd, ip_startIndex = ?s\<rparr>
        # map (\<lambda>i. \<lparr>ip_content = pds ! i, ip_startIndex = blockStart ?e pds i\<rparr>) [0..<length pds]"
  proof -
    have "[0..<Suc (length pds)] = 0 # map Suc [0..<length pds]"
      by (simp only: map_Suc_upt upt_conv_Cons [OF zero_less_Suc])
    then show ?thesis by (simp add: blockStart_def comp_def del: upt_Suc)
  qed
  show ?case
    unfolding shift using Cons.IH by (simp add: Let_def)
qed

text \<open>
  Claim C5. In the loop that lays out the blocks of a batch from the offset \<open>s\<close>, the
  block at position \<open>i\<close> is given the start offset \<open>s\<close> plus the sum over the prior blocks
  of the length of the block's concatenated run text plus one. The style request builder
  and the styles of the runs and blocks do not enter the offset.
\<close>

theorem paragraph_start_offsets:
  assumes "i < length paraData"
  shows "length (paraDataWithIndex (planParagraphs mkStyle paraData s)) = length paraData
    \<and> ip_content (paraDataWithIndex (planParagraphs mkStyle paraData s) ! i) = paraData ! i
    \<and> ip_startIndex (paraDataWithIndex (planParagraphs mkStyle paraData s) ! i)
        = s + (\<Sum>p\<leftarrow>take i paraData. int (length (concat (map run_text (runs p)))) + 1)
    \<and> (map (length \<circ> paragraphText) paraData' = map (length \<circ> paragraphText) paraData \<longrightarrow>
        map ip_startIndex (paraDataWithIndex (planParagraphs mkStyle' paraData' s))
          = map ip_startIndex (paraDataWithIndex (planParagraphs mkStyle paraData s)))"
proof -
  have idx: "paraDataWithIndex (planParagraphs m pds s) =
      map (\<lambda>i. \<lparr>ip_content = pds ! i, ip_startIndex = blockStart s pds i\<rparr>) [0..<length pds]"
    for m pds
    using paragraphLoop_index [of m pds] by (simp add: planParagraphs_def)
  have same: "map ip_startIndex (paraDataWithIndex (planParagraphs mkStyle' paraData' s))
          = map ip_startIndex (paraDataWithIndex (planParagraphs mkStyle paraData s))"
    if eq: "map (length \<circ> paragraphText) paraData' = map (length \<circ> paragraphText) paraData"
  proof -
    from eq have len: "length paraData' = length paraData"
      using map_eq_imp_length_eq by blast
    have "map (\<lambda>p. int (length (paragraphText p)) + 1) paraData'
        = map (\<lambda>p. int (length (paragraphText p)) + 1) paraData"
    proof -
      have "map (\<lambda>n. int n + 1) (map (length \<circ> paragraphText) paraData')
          = map (\<lambda>n. int n + 1) (map (length \<circ> paragraphText) paraData)"
        using eq by simp
      then show ?thesis by (simp add: comp_def)
    qed
    then have "blockStart s paraData' k = blockStart s paraData k" for k
      by (simp add: blockStart_def take_map [symmetric])
    then show ?thesis by (simp add: idx len comp_def)
  qed
  show ?thesis
    using assms same by (simp add: idx blockStart_def paragraphText_def)
qed

text \<open>The three sample blocks laid out from offset 1 start at 1, 7 and 12.\<close>

theorem paragraph_start_offsets_witness:
  "(2::nat) < length sampleBlocks
   \<and> map ip_startIndex (paraDataWithIndex (planParagraphs buildUpdateTextStyleRequest sampleBlocks 1))
       = [1, 7, 12]
   \<and> ip_startIndex (paraDataWithIndex (planParagraphs buildUpdateTextStyleRequest sampleBlocks 1) ! 2)
       = 1 + ((5 + 1) + (4 + 1))"
proof -
  have len: "(2::nat) < length sampleBlocks" by (simp add: sampleBlocks_def)
  have starts: "map ip_startIndex (paraDataWithIndex (planParagraphs buildUpdateTextStyleRequest sampleBlocks 1))
       = [1, 7, 12]"
    by (simp add: planParagraphs_def sampleBlocks_def paragraphText_def plainRun_def boldRun_def
        Let_def)
  have third: "ip_startIndex (paraDataWithIndex (planParagraphs buildUpdateTextStyleRequest sampleBlocks 1) ! 2)
       = 1 + ((5 + 1) + (4 + 1))"
    using paragraph_start_offsets [OF len, of buildUpdateTextStyleRequest 1 "[]" buildUpdateTextStyleRequest]
    by (simp add: sampleBlocks_def plainRun_def boldRun_def eval_nat_numeral)
  show ?thesis using len starts third by simp
qed

subsection \<open>Elision of default styles\<close>












subsection \<open>Image insertion of a paragraph batch\<close>





















subsection \<open>Locating and filling the created tables\<close>











subsection \<open>A fill whose table is not found\<close>

lemma locateTable_None:
  "(\<forall>t \<in> set tables. \<not> inToleranceWindow fill t) \<Longrightarrow> locateTable fill tables = None"
proof -
  assume "\<forall>t \<in> set tables. \<not> inToleranceWindow fill t"
  then have "find (inToleranceWindow fill) tables = None"
    by (auto simp: find_None_iff)
  then show ?thesis by (simp add: locateTable_def)
qed

lemma fillLoop_all_skipped:
  "(\<forall>f \<in> set fills. \<forall>t \<in> set tables. \<not> inToleranceWindow f t) \<Longrightarrow>
   fillLoop remote mkStyle documentId hasLog bodyContent tables fills w
     = (None, fold (\<lambda>f. logIf remote hasLog (warningMessage f)) fills w)"
proof (induction fills arbitrary: w)
  case Nil
  then show ?case by simp
next
  case (Cons f fills)
  then show ?case by (simp add: fillTable_def locateTable_None)
qed

text \<open>
  Claim C10. A fill for which no table of the re-read document starts within the window
  is skipped: it issues no remote call, raises no error, logs the warning through the
  logger (the orchestrator always passes one) and the loop goes on with the remaining
  fills. When no fill finds its table, \<open>fillPendingTables\<close> ends without an error, having
  logged one warning per fill.
\<close>

theorem unlocated_fill_skipped:
  "((\<forall>t \<in> set tables. \<not> inToleranceWindow fill t) \<longrightarrow>
      fillTable remote mkStyle documentId hasLog bodyContent tables fill w
        = (None, logIf remote hasLog (warningMessage fill) w)
      \<and> fillLoop remote mkStyle documentId hasLog bodyContent tables (fill # rest) w
        = fillLoop remote mkStyle documentId hasLog bodyContent tables rest
            (logIf remote hasLog (warningMessage fill) w))
   \<and> logIf remote True msg w = logInfo remote msg w
   \<and> ((\<forall>f \<in> set fills. \<forall>t \<in> set tables. \<not> inToleranceWindow f t) \<longrightarrow>
      fillLoop remote mkStyle documentId hasLog bodyContent tables fills w
        = (None, fold (\<lambda>f. logIf remote hasLog (warningMessage f)) fills w))"
proof -
  have one: "fillTable remote mkStyle documentId hasLog bodyContent tables fill w
        = (None, logIf remote hasLog (warningMessage fill) w)"
    if "\<forall>t \<in> set tables. \<not> inToleranceWindow fill t"
    using locateTable_None [OF that] by (simp add: fillTable_def)
  have next_fill: "fillLoop remote mkStyle documentId hasLog bodyContent tables (fill # rest) w
        = fillLoop remote mkStyle documentId hasLog bodyContent tables rest
            (logIf remote hasLog (warningMessage fill) w)"
    if "\<forall>t \<in> set tables. \<not> inToleranceWindow fill t"
    using one [OF that] by simp
  have lg: "logIf remote True msg w = logInfo remote msg w"
    by (simp add: logIf_def)
  have alls: "(\<forall>f \<in> set fills. \<forall>t \<in> set tables. \<not> inToleranceWindow f t) \<longrightarrow>
      fillLoop remote mkStyle documentId hasLog bodyContent tables fills w
        = (None, fold (\<lambda>f. logIf remote hasLog (warningMessage f)) fills w)"
    by (intro impI) (rule fillLoop_all_skipped)
  from one next_fill have first: "(\<forall>t \<in> set tables. \<not> inToleranceWindow fill t) \<longrightarrow>
      fillTable remote mkStyle documentId hasLog bodyContent tables fill w
        = (None, logIf remote hasLog (warningMessage fill) w)
      \<and> fillLoop remote mkStyle documentId hasLog bodyContent tables (fill # rest) w
        = fillLoop remote mkStyle documentId hasLog bodyContent tables rest
            (logIf remote hasLog (warningMessage fill) w)"
    by blast
  from first lg alls show ?thesis by (intro conjI)
qed

lemma farFill_unlocated:
  "\<forall>t \<in> set (extractTableElements sampleBody). \<not> inToleranceWindow farFill t"
  by (simp add: extractTableElements_def sampleBody_def paragraphAt_def sampleTableElement_def
      inToleranceWindow_def farFill_def)

text \<open>
  A phase whose only table cannot be found in the sample document: the warning is
  logged, the table request is the only remote call, and the operation reports one
  operation and one table.
\<close>

theorem unlocated_fill_skipped_witness:
  "executeMarkdownWithTables (tracingRemote (Inr sampleDocument) succeeds) buildUpdateTextStyleRequest
       farTableConverter ''doc'' ''| A | B |'' 1 None 0 emptyTrace
     = (Inr (1, 1),
        \<lparr>tr_calls = [ [OtherRequest ''insertTable''] ],
         tr_infos = [''Phase 1: 1 requests, 1 tables, postTableContent: none'',
                     ''Warning: could not locate table inserted at index 100, skipping fill''],
         tr_errors = []\<rparr>)"
proof -
  let ?R = "tracingRemote (Inr sampleDocument) succeeds"
  let ?w1 = "\<lparr>tr_calls = [ [OtherRequest ''insertTable''] ],
         tr_infos = [''Phase 1: 1 requests, 1 tables, postTableContent: none''],
         tr_errors = []\<rparr>"
  have skip: "fillTable ?R buildUpdateTextStyleRequest ''doc'' True sampleBody
        (extractTableElements sampleBody) farFill ?w1
      = (None, logIf ?R True (warningMessage farFill) ?w1)"
    using unlocated_fill_skipped
      [where tables = "extractTableElements sampleBody" and fill = farFill and remote = ?R
         and mkStyle = buildUpdateTextStyleRequest and documentId = "''doc''" and hasLog = True
         and bodyContent = sampleBody and w = ?w1 and fills = "[]"]
      farFill_unlocated
    by blast
  have warn: "logIf ?R True (warningMessage farFill) ?w1
      = \<lparr>tr_calls = [ [OtherRequest ''insertTable''] ],
         tr_infos = [''Phase 1: 1 requests, 1 tables, postTableContent: none'',
                     ''Warning: could not locate table inserted at index 100, skipping fill''],
         tr_errors = []\<rparr>"
    by (simp add: logIf_def tracingRemote_def warningMessage_def farFill_def show_int_def
        show_nat.simps digit_char_def)
  have fills: "fillPendingTables ?R buildUpdateTextStyleRequest ''doc'' [farFill] True ?w1
      = (None, logIf ?R True (warningMessage farFill) ?w1)"
    using skip
    by (simp add: fillPendingTables_def tracingRemote_def sampleDocument_def)
  have phase: "runPhase ?R buildUpdateTextStyleRequest farTableConverter ''doc'' ''| A | B |'' 1 None 0
        emptyTrace
      = (Inr \<lparr>cr_requests = [OtherRequest ''insertTable''], cr_pendingTableFills = [farFill],
              cr_postTableContent = None\<rparr>,
         logIf ?R True (warningMessage farFill) ?w1)"
  proof -
    have msg: "phaseMessage 0 \<lparr>cr_requests = [OtherRequest ''insertTable''],
          cr_pendingTableFills = [farFill], cr_postTableContent = None\<rparr>
        = ''Phase 1: 1 requests, 1 tables, postTableContent: none''"
      by (simp add: phaseMessage_def truthyText_def show_nat.simps digit_char_def)
    have exec: "executeBatchUpdateWithSplitting ?R ''doc'' [OtherRequest ''insertTable'']
          (logInfo ?R ''Phase 1: 1 requests, 1 tables, postTableContent: none'' emptyTrace)
        = (None, ?w1)"
      by (simp add: tracingRemote_def succeeds_def emptyTrace_def)
    show ?thesis
      using msg exec fills by (simp add: runPhase_def farTableConverter_def Let_def)
  qed
  show ?thesis
    using phase warn
    by (simp add: executeMarkdownWithTables.simps [of _ _ _ _ _ _ _ 0] truthyText_def)
qed

subsection \<open>Termination of the multi-phase execution\<close>

lemma tracing_get [simp]: "documentsGet (tracingRemote fetched outcome) d w = (fetched, w)"
  by (simp add: tracingRemote_def)

lemma tracing_update [simp]:
  "executeBatchUpdate (tracingRemote fetched outcome) d reqs w
     = (outcome reqs, w\<lparr>tr_calls := tr_calls w @ [reqs]\<rparr>)"
  by (simp add: tracingRemote_def)

lemma tracing_chunked [simp]:
  "executeBatchUpdateChunked (tracingRemote fetched outcome) d reqs n w
     = (outcome reqs, w\<lparr>tr_calls := tr_calls w @ [reqs]\<rparr>)"
  by (simp add: tracingRemote_def)

lemma tracing_splitting [simp]:
  "executeBatchUpdateWithSplitting (tracingRemote fetched outcome) d reqs w
     = (outcome reqs, w\<lparr>tr_calls := tr_calls w @ [reqs]\<rparr>)"
  by (simp add: tracingRemote_def)

lemma tracing_logInfo [simp]:
  "logInfo (tracingRemote fetched outcome) msg w = w\<lparr>tr_infos := tr_infos w @ [msg]\<rparr>"
  by (simp add: tracingRemote_def)

lemma phaseLines_calls [simp]: "phaseLines (w\<lparr>tr_calls := c\<rparr>) = phaseLines w"
  by (simp add: phaseLines_def)

lemma phaseLines_info:
  "phaseLines (w\<lparr>tr_infos := tr_infos w @ [msg]\<rparr>)
     = phaseLines w @ (if isPhaseLine msg then [msg] else [])"
  by (simp add: phaseLines_def)

lemma not_phase_line [simp]: "c \<noteq> CHR ''P'' \<Longrightarrow> \<not> isPhaseLine (c # m)"
  by (simp add: isPhaseLine_def)

lemma not_phase_lines [simp]:
  "\<not> isPhaseLine (warningMessage fill)" "\<not> isPhaseLine (fillingMessage i fill)"
  by (simp_all add: warningMessage_def fillingMessage_def)

lemma phaseLines_logIf:
  "\<not> isPhaseLine msg \<Longrightarrow> phaseLines (logIf (tracingRemote fetched outcome) hasLog msg w) = phaseLines w"
  by (simp add: logIf_def phaseLines_info)

lemma boldHeaders_phaseLines:
  "phaseLines (snd (boldHeaders (tracingRemote fetched outcome) mkStyle d hasLog i w)) = phaseLines w"
  by (simp add: boldHeaders_def phaseLines_logIf split: sum.splits option.splits)

lemma fillTable_phaseLines:
  "phaseLines (snd (fillTable (tracingRemote fetched outcome) mkStyle d hasLog body tables fill w))
     = phaseLines w"
  by (simp add: fillTable_def Let_def phaseLines_logIf boldHeaders_phaseLines
      split: sum.splits option.splits prod.splits)

lemma fillLoop_phaseLines:
  "phaseLines (snd (fillLoop (tracingRemote fetched outcome) mkStyle d hasLog body tables fills w))
     = phaseLines w"
proof (induction fills arbitrary: w)
  case Nil
  then show ?case by simp
next
  case (Cons fill fills)
  obtain r w1 where step:
    "fillTable (tracingRemote fetched outcome) mkStyle d hasLog body tables fill w = (r, w1)"
    by (cases "fillTable (tracingRemote fetched outcome) mkStyle d hasLog body tables fill w")
  with fillTable_phaseLines [of fetched outcome mkStyle d hasLog body tables fill w]
  have w1: "phaseLines w1 = phaseLines w" by simp
  show ?case using step w1 Cons.IH [of w1] by (cases r) simp_all
qed

lemma fillPendingTables_phaseLines:
  "phaseLines (snd (fillPendingTables (tracingRemote fetched outcome) mkStyle d fills hasLog w))
     = phaseLines w"
  by (simp add: fillPendingTables_def fillLoop_phaseLines split: sum.splits option.splits)

lemma runPhase_phaseLines:
  "length (phaseLines (snd (runPhase (tracingRemote fetched outcome) mkStyle convert d md si tab
       depth w))) \<le> Suc (length (phaseLines w))"
proof (cases "convert md si tab")
  case (Inl e)
  then show ?thesis by (simp add: runPhase_def)
next
  case (Inr cr)
  let ?R = "tracingRemote fetched outcome"
  let ?w1 = "w\<lparr>tr_infos := tr_infos w @ [phaseMessage depth cr]\<rparr>"
  have w1: "length (phaseLines ?w1) \<le> Suc (length (phaseLines w))"
    by (simp add: phaseLines_info)
  obtain r2 w2 where e2:
    "(if length (cr_requests cr) > 0
      then executeBatchUpdateWithSplitting ?R d (cr_requests cr) ?w1 else (None, ?w1)) = (r2, w2)"
    by (cases "if length (cr_requests cr) > 0
      then executeBatchUpdateWithSplitting ?R d (cr_requests cr) ?w1 else (None, ?w1)")
  then have w2: "phaseLines w2 = phaseLines ?w1"
    by (auto split: if_splits)
  obtain r3 w3 where e3:
    "(if length (cr_pendingTableFills cr) > 0
      then fillPendingTables ?R mkStyle d (cr_pendingTableFills cr) True w2 else (None, w2))
     = (r3, w3)"
    by (cases "if length (cr_pendingTableFills cr) > 0
      then fillPendingTables ?R mkStyle d (cr_pendingTableFills cr) True w2 else (None, w2)")
  then have w3: "phaseLines w3 = phaseLines w2"
    using fillPendingTables_phaseLines [of fetched outcome mkStyle d "cr_pendingTableFills cr" True w2]
    by (auto split: if_splits)
  have "snd (runPhase ?R mkStyle convert d md si tab depth w) = w2
      \<or> snd (runPhase ?R mkStyle convert d md si tab depth w) = w3"
    using Inr e2 e3 by (cases r2; cases r3) (simp_all add: runPhase_def Let_def)
  with w1 w2 w3 show ?thesis by auto
qed

lemma endOfContent_world:
  "snd (endOfContent (tracingRemote fetched outcome) d w) = w"
  by (simp add: endOfContent_def split: sum.splits option.splits list.splits)

lemma executeMarkdownWithTables_bound:
  "length (phaseLines (snd (executeMarkdownWithTables (tracingRemote fetched outcome) mkStyle
       convert d md si tab depth w))) \<le> length (phaseLines w) + (11 - depth)"
proof (induction "11 - depth" arbitrary: depth md si w)
  case 0
  then have "depth > 10" by simp
  then show ?case by (simp add: executeMarkdownWithTables.simps)
next
  case (Suc k)
  then have d: "\<not> depth > 10" and k: "k = 11 - (depth + 1)" by simp_all
  let ?R = "tracingRemote fetched outcome"
  obtain r3 w3 where ph: "runPhase ?R mkStyle convert d md si tab depth w = (r3, w3)"
    by (cases "runPhase ?R mkStyle convert d md si tab depth w")
  with runPhase_phaseLines [of fetched outcome mkStyle convert d md si tab depth w]
  have w3: "length (phaseLines w3) \<le> Suc (length (phaseLines w))" by simp
  show ?case
  proof (cases r3)
    case (Inl e)
    with d ph w3 show ?thesis
      by (simp add: executeMarkdownWithTables.simps [of _ _ _ _ _ _ _ depth])
  next
    case (Inr cr)
    show ?thesis
    proof (cases "truthyText (cr_postTableContent cr)")
      case None
      with d ph w3 Inr show ?thesis
        by (simp add: executeMarkdownWithTables.simps [of _ _ _ _ _ _ _ depth])
    next
      case (Some p)
      obtain r4 w4 where eo: "endOfContent ?R d w3 = (r4, w4)"
        by (cases "endOfContent ?R d w3")
      with endOfContent_world [of fetched outcome d w3] have w4: "w4 = w3" by simp
      show ?thesis
      proof (cases r4)
        case (Inl e)
        with d ph w3 Inr Some eo w4 show ?thesis
          by (simp add: executeMarkdownWithTables.simps [of _ _ _ _ _ _ _ depth])
      next
        case inr: (Inr n)
        show ?thesis
        proof (cases n)
          case None
          with d ph w3 Inr Some eo w4 inr show ?thesis
            by (simp add: executeMarkdownWithTables.simps [of _ _ _ _ _ _ _ depth])
        next
          case some: (Some newEnd)
          let ?w5 = "w3\<lparr>tr_infos := tr_infos w3
                       @ [''Appending post-table content at index '' @ show_int newEnd]\<rparr>"
          have w5: "phaseLines ?w5 = phaseLines w3"
            by (simp add: phaseLines_info)
          have ih: "length (phaseLines (snd (executeMarkdownWithTables ?R mkStyle convert d p
                      newEnd tab (depth + 1) ?w5))) \<le> length (phaseLines ?w5) + (11 - (depth + 1))"
            by (rule Suc.hyps(1) [OF k])
          obtain r6 w6 where rec: "executeMarkdownWithTables ?R mkStyle convert d p
                      newEnd tab (depth + 1) ?w5 = (r6, w6)"
            by (cases "executeMarkdownWithTables ?R mkStyle convert d p newEnd tab (depth + 1) ?w5")
          have "snd (executeMarkdownWithTables ?R mkStyle convert d md si tab depth w) = w6"
            using d ph Inr Some eo w4 inr some rec
            by (cases r6)
              (auto simp: executeMarkdownWithTables.simps [of _ _ _ _ _ _ _ depth])
          with ih rec w5 w3 d show ?thesis by simp
        qed
      qed
    qed
  qed
qed

text \<open>
  Claim C7, as amended. A call at a depth above 10 returns the limit \<open>UserError\<close> and
  does nothing else. A call at a depth of at most 10 runs one phase; when the phase fails
  its error is returned; when the conversion left no trailing content the counts of that
  phase are returned and no further phase is run, and so too when the re-read body is
  missing or empty; only with trailing content and a re-read end of content is the next
  phase entered, one level deeper. So at most eleven phases are run from depth 0 (depths
  0 to 10), whatever the conversion and the remote calls do, and the limit error is
  raised on entering depth 11.
\<close>

theorem markdown_phases_bounded:
  "(depth > 10 \<longrightarrow>
      executeMarkdownWithTables remote mkStyle convert d md si tab depth w
        = (Inl (UserError limitMessage), w))
   \<and> (depth \<le> 10 \<and> runPhase remote mkStyle convert d md si tab depth w = (Inl e, w3) \<longrightarrow>
      executeMarkdownWithTables remote mkStyle convert d md si tab depth w = (Inl e, w3))
   \<and> (depth \<le> 10 \<and> runPhase remote mkStyle convert d md si tab depth w = (Inr cr, w3)
        \<and> truthyText (cr_postTableContent cr) = None \<longrightarrow>
      executeMarkdownWithTables remote mkStyle convert d md si tab depth w
        = (Inr (length (cr_requests cr), length (cr_pendingTableFills cr)), w3))
   \<and> (depth \<le> 10 \<and> runPhase remote mkStyle convert d md si tab depth w = (Inr cr, w3)
        \<and> truthyText (cr_postTableContent cr) = Some p
        \<and> endOfContent remote d w3 = (Inr None, w4) \<longrightarrow>
      executeMarkdownWithTables remote mkStyle convert d md si tab depth w
        = (Inr (length (cr_requests cr), length (cr_pendingTableFills cr)), w4))
   \<and> (depth \<le> 10 \<and> runPhase remote mkStyle convert d md si tab depth w = (Inr cr, w3)
        \<and> truthyText (cr_postTableContent cr) = Some p
        \<and> endOfContent remote d w3 = (Inr (Some newEnd), w4) \<longrightarrow>
      executeMarkdownWithTables remote mkStyle convert d md si tab depth w
        = (case executeMarkdownWithTables remote mkStyle convert d p newEnd tab (depth + 1)
                  (logInfo remote (''Appending post-table content at index '' @ show_int newEnd)
                     w4) of
             (Inl e, w5) \<Rightarrow> (Inl e, w5)
           | (Inr (subOps, subTables), w5) \<Rightarrow>
               (Inr (length (cr_requests cr) + subOps,
                     length (cr_pendingTableFills cr) + subTables), w5)))
   \<and> length (phaseLines (snd (executeMarkdownWithTables (tracingRemote fetched outcome) mkStyle
        convert d md si tab depth t))) \<le> length (phaseLines t) + (11 - depth)"
proof -
  have a: "depth > 10 \<longrightarrow>
      executeMarkdownWithTables remote mkStyle convert d md si tab depth w
        = (Inl (UserError limitMessage), w)"
    by (simp add: executeMarkdownWithTables.simps)
  have b: "depth \<le> 10 \<and> runPhase remote mkStyle convert d md si tab depth w = (Inl e, w3) \<longrightarrow>
      executeMarkdownWithTables remote mkStyle convert d md si tab depth w = (Inl e, w3)"
    by (simp add: executeMarkdownWithTables.simps [of _ _ _ _ _ _ _ depth])
  have c: "depth \<le> 10 \<and> runPhase remote mkStyle convert d md si tab depth w = (Inr cr, w3)
        \<and> truthyText (cr_postTableContent cr) = None \<longrightarrow>
      executeMarkdownWithTables remote mkStyle convert d md si tab depth w
        = (Inr (length (cr_requests cr), length (cr_pendingTableFills cr)), w3)"
    by (simp add: executeMarkdownWithTables.simps [of _ _ _ _ _ _ _ depth])
  have c': "depth \<le> 10 \<and> runPhase remote mkStyle convert d md si tab depth w = (Inr cr, w3)
        \<and> truthyText (cr_postTableContent cr) = Some p
        \<and> endOfContent remote d w3 = (Inr None, w4) \<longrightarrow>
      executeMarkdownWithTables remote mkStyle convert d md si tab depth w
        = (Inr (length (cr_requests cr), length (cr_pendingTableFills cr)), w4)"
    by (simp add: executeMarkdownWithTables.simps [of _ _ _ _ _ _ _ depth])
  have e: "depth \<le> 10 \<and> runPhase remote mkStyle convert d md si tab depth w = (Inr cr, w3)
        \<and> truthyText (cr_postTableContent cr) = Some p
        \<and> endOfContent remote d w3 = (Inr (Some newEnd), w4) \<longrightarrow>
      executeMarkdownWithTables remote mkStyle convert d md si tab depth w
        = (case executeMarkdownWithTables remote mkStyle convert d p newEnd tab (depth + 1)
                  (logInfo remote (''Appending post-table content at index '' @ show_int newEnd)
                     w4) of
             (Inl e, w5) \<Rightarrow> (Inl e, w5)
           | (Inr (subOps, subTables), w5) \<Rightarrow>
               (Inr (length (cr_requests cr) + subOps,
                     length (cr_pendingTableFills cr) + subTables), w5))"
    by (simp add: executeMarkdownWithTables.simps [of _ _ _ _ _ _ _ depth])
  from a b c c' e executeMarkdownWithTables_bound [of fetched outcome mkStyle convert d md si tab depth t]
  show ?thesis by (intro conjI)
qed

lemma sample_endOfContent:
  "endOfContent (tracingRemote (Inr sampleDocument) outcome) d w = (Inr (Some 13), w)"
  by (simp add: endOfContent_def sampleDocument_def sampleBody_def paragraphAt_def
      sampleTableElement_def)

lemma oneChar_phase:
  "runPhase (tracingRemote fetched outcome) mkStyle oneCharConverter d md si tab depth w
     = (Inr \<lparr>cr_requests = [], cr_pendingTableFills = [],
             cr_postTableContent = (if tl md = [] then None else Some (tl md))\<rparr>,
        w\<lparr>tr_infos := tr_infos w
             @ [phaseMessage depth \<lparr>cr_requests = [], cr_pendingTableFills = [],
                  cr_postTableContent = (if tl md = [] then None else Some (tl md))\<rparr>]\<rparr>)"
  by (simp add: runPhase_def oneCharConverter_def Let_def)

lemma endless_phase:
  "runPhase (tracingRemote fetched outcome) mkStyle endlessConverter d md si tab depth w
     = (Inr \<lparr>cr_requests = [], cr_pendingTableFills = [], cr_postTableContent = Some ''x''\<rparr>,
        w\<lparr>tr_infos := tr_infos w
             @ [phaseMessage depth \<lparr>cr_requests = [], cr_pendingTableFills = [],
                  cr_postTableContent = Some ''x''\<rparr>]\<rparr>)"
  by (simp add: runPhase_def endlessConverter_def Let_def)

lemma oneChar_last_phase:
  "depth \<le> 10 \<Longrightarrow>
   executeMarkdownWithTables (tracingRemote (Inr sampleDocument) outcome) mkStyle oneCharConverter
       d [c] si tab depth w
     = (Inr (0, 0),
        w\<lparr>tr_infos := tr_infos w
             @ [phaseMessage depth \<lparr>cr_requests = [], cr_pendingTableFills = [],
                  cr_postTableContent = None\<rparr>]\<rparr>)"
  by (simp add: executeMarkdownWithTables.simps [of _ _ _ _ _ _ _ depth] oneChar_phase
      truthyText_def)

lemma oneChar_step:
  "depth \<le> 10 \<Longrightarrow> rest \<noteq> [] \<Longrightarrow>
   executeMarkdownWithTables (tracingRemote (Inr sampleDocument) outcome) mkStyle oneCharConverter
       d (c # rest) si tab depth w
     = executeMarkdownWithTables (tracingRemote (Inr sampleDocument) outcome) mkStyle
         oneCharConverter d rest 13 tab (depth + 1)
         (w\<lparr>tr_infos := tr_infos w
             @ [phaseMessage depth \<lparr>cr_requests = [], cr_pendingTableFills = [],
                  cr_postTableContent = Some rest\<rparr>,
                ''Appending post-table content at index 13'']\<rparr>)"
  by (simp add: executeMarkdownWithTables.simps [of _ _ _ _ _ _ _ depth] oneChar_phase
      truthyText_def sample_endOfContent show_int_def show_nat.simps digit_char_def
      split: prod.splits sum.splits)

lemma endless_step:
  "depth \<le> 10 \<Longrightarrow>
   executeMarkdownWithTables (tracingRemote (Inr sampleDocument) outcome) mkStyle endlessConverter
       d md si tab depth w
     = (case executeMarkdownWithTables (tracingRemote (Inr sampleDocument) outcome) mkStyle
               endlessConverter d ''x'' 13 tab (depth + 1)
               (w\<lparr>tr_infos := tr_infos w
                   @ [phaseMessage depth \<lparr>cr_requests = [], cr_pendingTableFills = [],
                        cr_postTableContent = Some ''x''\<rparr>,
                      ''Appending post-table content at index 13'']\<rparr>) of
          (Inl e, w5) \<Rightarrow> (Inl e, w5)
        | (Inr (subOps, subTables), w5) \<Rightarrow> (Inr (subOps, subTables), w5))"
  by (simp add: executeMarkdownWithTables.simps [of _ _ _ _ _ _ _ depth] endless_phase
      truthyText_def sample_endOfContent show_int_def show_nat.simps digit_char_def
      split: prod.splits sum.splits)

text \<open>
  A conversion that always leaves trailing content, on the sample document: the phases at
  depths 0 to 10 run and the call at depth 11 returns the limit error.
\<close>

theorem markdown_phases_bounded_witness:
  "executeMarkdownWithTables (tracingRemote (Inr sampleDocument) succeeds) buildUpdateTextStyleRequest
       endlessConverter ''doc'' ''x'' 13 None 11 emptyTrace
     = (Inl (UserError limitMessage), emptyTrace)
   \<and> fst (executeMarkdownWithTables (tracingRemote (Inr sampleDocument) succeeds)
       buildUpdateTextStyleRequest endlessConverter ''doc'' ''# T'' 1 None 0 emptyTrace)
     = Inl (UserError limitMessage)
   \<and> length (phaseLines (snd (executeMarkdownWithTables
       (tracingRemote (Inr sampleDocument) succeeds) buildUpdateTextStyleRequest endlessConverter ''doc''
       ''# T'' 1 None 0 emptyTrace))) \<le> 11"
proof -
  have limit: "executeMarkdownWithTables (tracingRemote (Inr sampleDocument) succeeds)
       buildUpdateTextStyleRequest endlessConverter ''doc'' ''x'' 13 None depth w
     = (Inl (UserError limitMessage), w)" if "depth > 10" for depth w
    using that markdown_phases_bounded
      [where depth = depth and remote = "tracingRemote (Inr sampleDocument) succeeds"
         and mkStyle = buildUpdateTextStyleRequest and convert = endlessConverter and d = "''doc''"
         and md = "''x''" and si = 13 and tab = None and w = w]
    by blast
  have a: "executeMarkdownWithTables (tracingRemote (Inr sampleDocument) succeeds)
       buildUpdateTextStyleRequest endlessConverter ''doc'' ''x'' 13 None 11 emptyTrace
     = (Inl (UserError limitMessage), emptyTrace)"
    by (rule limit) simp
  have b: "fst (executeMarkdownWithTables (tracingRemote (Inr sampleDocument) succeeds)
       buildUpdateTextStyleRequest endlessConverter ''doc'' ''# T'' 1 None 0 emptyTrace)
     = Inl (UserError limitMessage)"
    by (simp add: endless_step limit)
  have c: "length (phaseLines (snd (executeMarkdownWithTables
       (tracingRemote (Inr sampleDocument) succeeds) buildUpdateTextStyleRequest endlessConverter ''doc''
       ''# T'' 1 None 0 emptyTrace))) \<le> 11"
    using markdown_phases_bounded
      [where depth = 0 and fetched = "Inr sampleDocument" and outcome = succeeds
         and mkStyle = buildUpdateTextStyleRequest and convert = endlessConverter and d = "''doc''"
         and md = "''# T''" and si = 1 and tab = None and t = emptyTrace,
       THEN conjunct2, THEN conjunct2, THEN conjunct2, THEN conjunct2, THEN conjunct2]
    by (simp add: phaseLines_def emptyTrace_def)
  show ?thesis using a b c by simp
qed

text \<open>
  The claim as stated fails at depth 10. A conversion that consumes one character per
  phase, on a text of eleven characters: the phase at depth 10 (\<open>Phase 11\<close>) runs, no
  trailing content remains and the operation succeeds without the limit error.
\<close>

theorem markdown_depth_ten_succeeds_counterexample:
  "fst (executeMarkdownWithTables (tracingRemote (Inr sampleDocument) succeeds)
       buildUpdateTextStyleRequest oneCharConverter ''doc'' ''aaaaaaaaaaa'' 1 None 0 emptyTrace)
     = Inr (0, 0)
   \<and> last (tr_infos (snd (executeMarkdownWithTables (tracingRemote (Inr sampleDocument) succeeds)
       buildUpdateTextStyleRequest oneCharConverter ''doc'' ''aaaaaaaaaaa'' 1 None 0 emptyTrace)))
     = ''Phase 11: 0 requests, 0 tables, postTableContent: none''"
  by (simp add: oneChar_step oneChar_last_phase phaseMessage_def truthyText_def show_nat.simps
      digit_char_def)

end
